theory Spec2Isabelle
  imports Complex_Main "HOL-Library.AList"
begin

section \<open>The image source of the map renderer (src/source/image\_source.js)\<close>

text \<open>
  The class \<open>ImageSource\<close> places one raster (an image, a video frame or a canvas) on one
  synthetic map tile. This theory embeds its methods as functions on an explicit state
  and proves the properties its design description states.

  Conventions of the embedding:
  \<^item> A JavaScript number is an exact rational (\<open>number\<close>): NaN, the infinities, negative
    zero and the rounding of IEEE doubles are outside the model. \<open>Math.floor\<close> and
    \<open>Math.round\<close> are the exact functions of the language standard.
  \<^item> The object \<open>this\<close> is the record \<open>ImageSource\<close>. Tiles are objects owned by the tile
    cache and shared by reference, so they live in a store (\<open>heap\<close>, from references to
    tiles) and \<open>this.tiles\<close> holds references.
  \<^item> Calls on the WebGL context and events fired on the source are appended to logs
    (\<open>gl\<close>, \<open>fired\<close>), oldest first.
  \<^item> A thrown exception is \<open>Inl\<close>; the object as it was left when the exception was
    thrown is not tracked.
  \<^item> Names follow the source. Where a name of the source is not a name here, it gets a
    prefix: the fields \<open>type\<close>, \<open>id\<close>, \<open>map\<close>, \<open>image\<close> of the source are \<open>src_type\<close>,
    \<open>src_id\<close>, \<open>src_map\<close>, \<open>src_image\<close>; \<open>_boundsArray\<close>, \<open>_prepareImage\<close> and
    \<open>_finishLoading\<close> lose the underscore; the fields of a tile coordinate, a point and a
    tile are \<open>tc_z\<close>, \<open>pt_x\<close>, \<open>tile_coord\<close>, \<open>tile_texture\<close> and so on.
  \<^item> The modules the file requires but does not define (the projection of the map,
    \<open>util.getCoordinatesCenter\<close>, \<open>Coordinate.zoomTo\<close>, \<open>TileCoord.toString\<close>, the constant
    \<open>EXTENT\<close>) are parameters: the record \<open>env\<close> and the record \<open>map_obj\<close>. They are taken
    as total functions.
\<close>

subsection \<open>Values\<close>

type_synonym number = rat

text \<open>A corner \<open>[lng, lat]\<close>.\<close>

type_synonym lnglat = "number \<times> number"

definition Math_floor :: "number \<Rightarrow> number" where
  "Math_floor v = of_int \<lfloor>v\<rfloor>"

text \<open>\<open>Math.round\<close> rounds to the nearest integer, a tie towards plus infinity.\<close>

definition Math_round :: "number \<Rightarrow> number" where
  "Math_round v = of_int \<lfloor>v + 1 / 2\<rfloor>"

text \<open>The values a property of a plain object holds in this file.\<close>

datatype jsvalue = Undefined | Str string | Coords "lnglat list"

text \<open>A plain object (an options object, the output of \<open>serialize\<close>): its properties.\<close>

type_synonym object = "(string \<times> jsvalue) list"

definition get_prop :: "object \<Rightarrow> string \<Rightarrow> jsvalue" where
  "get_prop obj k = (case map_of obj k of None \<Rightarrow> Undefined | Some v \<Rightarrow> v)"

datatype error = TypeError

subsection \<open>The classes the file uses\<close>

text \<open>\<open>Coordinate\<close> (geo/coordinate): a position in tile space at a zoom level.\<close>

record Coordinate =
  column :: number
  row :: number
  zoom :: number

text \<open>
  \<open>TileCoord\<close> (source/tile\_coord). The class is not in this file; a tile coordinate has
  the fields \<open>z\<close>, \<open>x\<close>, \<open>y\<close> and the wrap index \<open>w\<close>, which \<open>loadTile\<close> reads.
\<close>

record TileCoord =
  tc_z :: number
  tc_x :: number
  tc_y :: number
  tc_w :: number

text \<open>
  Modelled from the spec: the constructor of \<open>TileCoord\<close> is not in this file. The anchor
  is the triple (zoom, column, row) it is called with; the wrap index, which the call
  does not pass, is taken as 0.
\<close>

definition new_TileCoord :: "number \<Rightarrow> number \<Rightarrow> number \<Rightarrow> TileCoord" where
  "new_TileCoord zz xx yy = \<lparr>tc_z = zz, tc_x = xx, tc_y = yy, tc_w = 0\<rparr>"

text \<open>\<open>Point\<close> (\<open>@mapbox/point-geometry\<close>).\<close>

record Point =
  pt_x :: number
  pt_y :: number

text \<open>
  One element of a \<open>RasterBoundsArray\<close>: the four arguments of one \<open>emplaceBack\<close>, the
  position and the texture coordinate. The storage layout of the array is not part of
  this file; the model keeps the arguments as they are passed.
\<close>

record vertex =
  a_pos_x :: number
  a_pos_y :: number
  a_tex_x :: number
  a_tex_y :: number

definition emplaceBack :: "vertex list \<Rightarrow> number \<Rightarrow> number \<Rightarrow> number \<Rightarrow> number \<Rightarrow> vertex list" where
  "emplaceBack arr px py tx ty =
     arr @ [\<lparr>a_pos_x = px, a_pos_y = py, a_tex_x = tx, a_tex_y = ty\<rparr>]"

text \<open>The raster, by the class the source tests with \<open>instanceof\<close>; the number names it.\<close>

datatype Image =
    HTMLImageElement nat
  | HTMLVideoElement nat
  | ImageData nat
  | HTMLCanvasElement nat

text \<open>
  A tile, as far as this file reads and writes it: \<open>tile.coord\<close>, \<open>tile.state\<close>,
  \<open>tile.texture\<close>, \<open>tile.buckets\<close>.
\<close>

record Tile =
  tile_coord :: TileCoord
  state :: string
  tile_texture :: "nat option"
  buckets :: "(string \<times> nat) list"

text \<open>
  The map, as far as \<open>setCoordinates\<close> uses it:
  \<open>map.transform.locationCoordinate(LngLat.convert(coord))\<close>.
\<close>

record map_obj =
  locationCoordinate :: "lnglat \<Rightarrow> Coordinate"

text \<open>The required modules.\<close>

record env =
  getCoordinatesCenter :: "Coordinate list \<Rightarrow> Coordinate"
  zoomTo :: "Coordinate \<Rightarrow> number \<Rightarrow> Coordinate"
  EXTENT :: number
  toString :: "TileCoord \<Rightarrow> string"

subsection \<open>The WebGL context and the events\<close>

datatype tex_pname = TEXTURE_WRAP_S | TEXTURE_WRAP_T | TEXTURE_MIN_FILTER | TEXTURE_MAG_FILTER

datatype tex_param = CLAMP_TO_EDGE | LINEAR

text \<open>
  The calls this file makes on the context. \<open>NewVertexBuffer b arr\<close> is
  \<open>new VertexBuffer(gl, arr)\<close> giving the buffer \<open>b\<close>, \<open>DestroyBuffer b\<close> is \<open>b.destroy()\<close>;
  both classes are outside this file and the model records the call only.
\<close>

datatype gl_call =
    CreateTexture nat
  | BindTexture "nat option"
  | TexParameteri tex_pname tex_param
  | TexImage2D Image
  | TexSubImage2D Image
  | NewVertexBuffer nat "vertex list option"
  | DestroyBuffer nat

text \<open>\<open>this.fire(name, data)\<close>.\<close>

datatype event = Event string "(string \<times> string) list"

subsection \<open>The state\<close>

record ImageSource =
  src_type :: string
  src_id :: string
  minzoom :: number
  maxzoom :: number
  tileSize :: number
  url :: jsvalue
  coordinates :: jsvalue
  tiles :: "(number \<times> nat) list"
  options :: object
  dispatcher :: nat
  eventedParent :: nat
  src_map :: "map_obj option"
  texture :: "nat option"
  textureLoaded :: bool
  src_image :: "Image option"
  centerCoord :: "Coordinate option"
  coord :: "TileCoord option"
  boundsArray :: "vertex list option"
  boundsBuffer :: "nat option"
  boundsVAO :: bool

text \<open>
  \<open>this.tiles\<close> is keyed by \<open>String(tile.coord.w)\<close>. \<open>String\<close> is injective on numbers,
  so the table is keyed by the number; a key is stored once (\<open>AList.update\<close>).
\<close>

record world =
  this :: ImageSource
  heap :: "nat \<Rightarrow> Tile"
  gl :: "gl_call list"
  fired :: "event list"
  requests :: "jsvalue list"

definition fire :: "string \<Rightarrow> (string \<times> string) list \<Rightarrow> world \<Rightarrow> world" where
  "fire name data wd = wd\<lparr>fired := fired wd @ [Event name data]\<rparr>"

definition gl_do :: "gl_call list \<Rightarrow> world \<Rightarrow> world" where
  "gl_do cs wd = wd\<lparr>gl := gl wd @ cs\<rparr>"

subsection \<open>constructor (lines 73-89)\<close>

definition constructor :: "string \<Rightarrow> object \<Rightarrow> nat \<Rightarrow> nat \<Rightarrow> ImageSource" where
  "constructor ident opts disp parent =
     \<lparr>src_type = ''image'', src_id = ident, minzoom = 0, maxzoom = 22, tileSize = 512,
      url = Undefined, coordinates = get_prop opts ''coordinates'', tiles = [],
      options = opts, dispatcher = disp, eventedParent = parent, src_map = None,
      texture = None, textureLoaded = False, src_image = None, centerCoord = None,
      coord = None, boundsArray = None, boundsBuffer = None, boundsVAO = False\<rparr>"

subsection \<open>setCoordinates (lines 127-177)\<close>

text \<open>Lines 137-139: the corners in zoom 0 tile space.\<close>

definition cornerZ0Coords :: "env \<Rightarrow> map_obj \<Rightarrow> lnglat list \<Rightarrow> Coordinate list" where
  "cornerZ0Coords e m cs = map (\<lambda>c. zoomTo e (locationCoordinate m c) 0) cs"

text \<open>Lines 143-147: the centre, its column and row rounded down in place.\<close>

definition flooredCenter :: "env \<Rightarrow> Coordinate list \<Rightarrow> Coordinate" where
  "flooredCenter e z0 =
     (let c = getCoordinatesCenter e z0;
          c1 = c\<lparr>column := Math_floor (column c)\<rparr>
      in c1\<lparr>row := Math_floor (row c1)\<rparr>)"

text \<open>Lines 157-162: the corners in the coordinate space of the tile.\<close>

definition tileCoords :: "env \<Rightarrow> Coordinate \<Rightarrow> Coordinate list \<Rightarrow> Point list" where
  "tileCoords e cc z0 =
     map (\<lambda>c. let zoomedCoord = zoomTo e c (zoom cc)
              in \<lparr>pt_x = Math_round ((column zoomedCoord - column cc) * EXTENT e),
                  pt_y = Math_round ((row zoomedCoord - row cc) * EXTENT e)\<rparr>) z0"

text \<open>Lines 164-168. The caller has checked that the four points exist.\<close>

definition buildBoundsArray :: "env \<Rightarrow> Point list \<Rightarrow> vertex list" where
  "buildBoundsArray e tcs =
     (let a0 = [];
          a1 = emplaceBack a0 (pt_x (tcs ! 0)) (pt_y (tcs ! 0)) 0 0;
          a2 = emplaceBack a1 (pt_x (tcs ! 1)) (pt_y (tcs ! 1)) (EXTENT e) 0;
          a3 = emplaceBack a2 (pt_x (tcs ! 3)) (pt_y (tcs ! 3)) 0 (EXTENT e);
          a4 = emplaceBack a3 (pt_x (tcs ! 2)) (pt_y (tcs ! 2)) (EXTENT e) (EXTENT e)
      in a4)"

text \<open>Lines 170-173.\<close>

definition destroyBoundsBuffer :: "world \<Rightarrow> world" where
  "destroyBoundsBuffer wd =
     (case boundsBuffer (this wd) of
        None \<Rightarrow> wd
      | Some b \<Rightarrow> (gl_do [DestroyBuffer b] wd)\<lparr>this := (this wd)\<lparr>boundsBuffer := None\<rparr>\<rparr>)"

text \<open>
  The method. It throws a TypeError when the argument is not an array
  (\<open>coordinates.map\<close>), when \<open>this.map\<close> is undefined (\<open>map.transform\<close>, or further
  down when there is no corner at all) and when there are fewer than four corners
  (\<open>tileCoords[i].x\<close> of an undefined element).
\<close>

definition setCoordinates :: "env \<Rightarrow> jsvalue \<Rightarrow> world \<Rightarrow> error + world" where
  "setCoordinates e cds wd =
     (case cds of
        Coords cs \<Rightarrow>
          (case src_map (this wd) of
             None \<Rightarrow> Inl TypeError
           | Some m \<Rightarrow>
               (let z0 = cornerZ0Coords e m cs;
                    cc = flooredCenter e z0;
                    tcs = tileCoords e cc z0
                in if length tcs < 4 then Inl TypeError
                   else
                     (let s1 = (this wd)
                            \<lparr>coordinates := cds,
                             centerCoord := Some cc,
                             coord := Some (new_TileCoord (zoom cc) (column cc) (row cc)),
                             minzoom := zoom cc,
                             maxzoom := zoom cc,
                             boundsArray := Some (buildBoundsArray e tcs)\<rparr>;
                          wd1 = destroyBoundsBuffer (wd\<lparr>this := s1\<rparr>)
                      in Inr (fire ''data''
                           [(''dataType'', ''source''), (''sourceDataType'', ''content'')] wd1))))
      | _ \<Rightarrow> Inl TypeError)"

text \<open>
  The fields a returning call has assigned when it reaches line 170, as one update of
  the object (shown equal to the method's result in \<open>setCoordinates_returns\<close>).
\<close>

definition geometry_of :: "env \<Rightarrow> map_obj \<Rightarrow> lnglat list \<Rightarrow> ImageSource \<Rightarrow> ImageSource" where
  "geometry_of e m cs s =
     (let z0 = cornerZ0Coords e m cs;
          cc = flooredCenter e z0
      in s\<lparr>coordinates := Coords cs,
           centerCoord := Some cc,
           coord := Some (new_TileCoord (zoom cc) (column cc) (row cc)),
           minzoom := zoom cc,
           maxzoom := zoom cc,
           boundsArray := Some (buildBoundsArray e (tileCoords e cc z0))\<rparr>)"

subsection \<open>prepare and \_prepareImage (lines 179-216)\<close>

text \<open>Lines 185-187. The new buffer is named by the length of the log, a fresh number.\<close>

definition ensureBoundsBuffer :: "world \<Rightarrow> world" where
  "ensureBoundsBuffer wd =
     (case boundsBuffer (this wd) of
        Some b \<Rightarrow> wd
      | None \<Rightarrow>
          (let b = length (gl wd)
           in (gl_do [NewVertexBuffer b (boundsArray (this wd))] wd)
                \<lparr>this := (this wd)\<lparr>boundsBuffer := Some b\<rparr>\<rparr>))"

text \<open>Lines 189-191. Creating a \<open>VertexArrayObject\<close> makes no call on the context.\<close>

definition ensureBoundsVAO :: "world \<Rightarrow> world" where
  "ensureBoundsVAO wd =
     (if \<not> boundsVAO (this wd) then wd\<lparr>this := (this wd)\<lparr>boundsVAO := True\<rparr>\<rparr> else wd)"

text \<open>The test of line 204.\<close>

fun isStreaming :: "Image \<Rightarrow> bool" where
  "isStreaming (HTMLVideoElement n) = True"
| "isStreaming (ImageData n) = True"
| "isStreaming (HTMLCanvasElement n) = True"
| "isStreaming (HTMLImageElement n) = False"

text \<open>The calls of lines 195-201 for the new texture \<open>t\<close>.\<close>

definition createCalls :: "nat \<Rightarrow> Image \<Rightarrow> gl_call list" where
  "createCalls t img =
     [CreateTexture t,
      BindTexture (Some t),
      TexParameteri TEXTURE_WRAP_S CLAMP_TO_EDGE,
      TexParameteri TEXTURE_WRAP_T CLAMP_TO_EDGE,
      TexParameteri TEXTURE_MIN_FILTER LINEAR,
      TexParameteri TEXTURE_MAG_FILTER LINEAR,
      TexImage2D img]"

text \<open>Lines 193-207. The new texture is named by the length of the log.\<close>

definition updateTexture :: "Image \<Rightarrow> bool \<Rightarrow> world \<Rightarrow> world" where
  "updateTexture img resize wd =
     (if \<not> textureLoaded (this wd) then
        (let t = length (gl wd)
         in (gl_do (createCalls t img) wd)
              \<lparr>this := (this wd)\<lparr>textureLoaded := True, texture := Some t\<rparr>\<rparr>)
      else if resize then gl_do [TexImage2D img] wd
      else if isStreaming img then
        gl_do [BindTexture (texture (this wd)), TexSubImage2D img] wd
      else wd)"

text \<open>
  The calls lines 193-207 make on the context, by the branch taken, for the object \<open>s\<close>
  and the fresh name \<open>t\<close> (shown equal to what \<open>updateTexture\<close> appends in
  \<open>updateTexture_fields\<close>).
\<close>

definition uploadCalls :: "Image \<Rightarrow> bool \<Rightarrow> nat \<Rightarrow> ImageSource \<Rightarrow> gl_call list" where
  "uploadCalls img resize t s =
     (if \<not> textureLoaded s then createCalls t img
      else if resize then [TexImage2D img]
      else if isStreaming img then [BindTexture (texture s), TexSubImage2D img]
      else [])"

text \<open>
  Lines 209-215: the loop over \<open>this.tiles\<close>, writing through the references. Each
  entry is visited once; the result does not depend on the order (\<open>markTiles_apply\<close>).
\<close>

fun markTiles :: "nat option \<Rightarrow> (number \<times> nat) list \<Rightarrow> (nat \<Rightarrow> Tile) \<Rightarrow> (nat \<Rightarrow> Tile)" where
  "markTiles tex [] h = h"
| "markTiles tex ((k, r) # ts) h =
     markTiles tex ts
       (if state (h r) \<noteq> ''loaded''
        then h(r := (h r)\<lparr>state := ''loaded'', tile_texture := tex\<rparr>)
        else h)"

text \<open>\<open>_prepareImage(gl, image, resize)\<close>; an omitted \<open>resize\<close> is \<open>False\<close>.\<close>

definition prepareImage :: "Image \<Rightarrow> bool \<Rightarrow> world \<Rightarrow> world" where
  "prepareImage img resize wd =
     (let wd1 = ensureBoundsBuffer wd;
          wd2 = ensureBoundsVAO wd1;
          wd3 = updateTexture img resize wd2
      in wd3\<lparr>heap := markTiles (texture (this wd3)) (tiles (this wd3)) (heap wd3)\<rparr>)"

text \<open>
  \<open>prepare()\<close>. After the guard of line 180 it reads \<open>this.map.painter.gl\<close>, a TypeError
  when \<open>this.map\<close> is undefined.
\<close>

definition prepare :: "world \<Rightarrow> error + world" where
  "prepare wd =
     (if tiles (this wd) = [] then Inr wd
      else (case src_image (this wd) of
              None \<Rightarrow> Inr wd
            | Some img \<Rightarrow>
                (case src_map (this wd) of
                   None \<Rightarrow> Inl TypeError
                 | Some m \<Rightarrow> Inr (prepareImage img False wd))))"

subsection \<open>loadTile (lines 218-233)\<close>

text \<open>
  The tile is passed by reference. The callback is called once, last, in both branches;
  the first component of the result is the argument it is called with (\<open>None\<close> is
  \<open>null\<close>).
\<close>

definition sameTile :: "env \<Rightarrow> TileCoord option \<Rightarrow> TileCoord \<Rightarrow> bool" where
  "sameTile e c tc = (case c of None \<Rightarrow> False | Some a \<Rightarrow> toString e a = toString e tc)"

definition loadTile :: "env \<Rightarrow> nat \<Rightarrow> world \<Rightarrow> error option \<times> world" where
  "loadTile e tile wd =
     (let t = heap wd tile
      in if sameTile e (coord (this wd)) (tile_coord t)
         then (None,
               wd\<lparr>this := (this wd)\<lparr>tiles := AList.update (tc_w (tile_coord t)) tile (tiles (this wd))\<rparr>,
                  heap := (heap wd)(tile := t\<lparr>buckets := []\<rparr>)\<rparr>)
         else (None, wd\<lparr>heap := (heap wd)(tile := t\<lparr>state := ''errored''\<rparr>)\<rparr>))"

subsection \<open>serialize (lines 235-241)\<close>

definition serialize :: "ImageSource \<Rightarrow> object" where
  "serialize s =
     [(''type'', Str ''image''),
      (''urls'', get_prop (options s) ''url''),
      (''coordinates'', coordinates s)]"

subsection \<open>load, \_finishLoading, onAdd (lines 91-116)\<close>

text \<open>
  \<open>load()\<close> up to the request: \<open>this.map._transformRequest\<close> is a TypeError when
  \<open>this.map\<close> is undefined; the request is recorded with the url it asks for.
\<close>

definition load :: "world \<Rightarrow> error + world" where
  "load wd =
     (let wd1 = fire ''dataloading'' [(''dataType'', ''source'')] wd;
          u = get_prop (options (this wd1)) ''url'';
          wd2 = wd1\<lparr>this := (this wd1)\<lparr>url := u\<rparr>\<rparr>
      in case src_map (this wd2) of
           None \<Rightarrow> Inl TypeError
         | Some m \<Rightarrow> Inr (wd2\<lparr>requests := requests wd2 @ [u]\<rparr>))"

definition finishLoading :: "env \<Rightarrow> world \<Rightarrow> error + world" where
  "finishLoading e wd =
     (case src_map (this wd) of
        None \<Rightarrow> Inr wd
      | Some m \<Rightarrow>
          (case setCoordinates e (coordinates (this wd)) wd of
             Inl x \<Rightarrow> Inl x
           | Inr wd1 \<Rightarrow>
               Inr (fire ''data''
                 [(''dataType'', ''source''), (''sourceDataType'', ''metadata'')] wd1)))"

text \<open>The callback of \<open>ajax.getImage\<close> (lines 96-103), called with \<open>(err, image)\<close>.\<close>

definition getImage_callback :: "env \<Rightarrow> string option \<Rightarrow> Image option \<Rightarrow> world \<Rightarrow> error + world" where
  "getImage_callback e err img wd =
     (case err of
        Some msg \<Rightarrow> Inr (fire ''error'' [(''error'', msg)] wd)
      | None \<Rightarrow>
          (case img of
             None \<Rightarrow> Inr wd
           | Some i \<Rightarrow> finishLoading e (wd\<lparr>this := (this wd)\<lparr>src_image := Some i\<rparr>\<rparr>)))"

definition onAdd :: "map_obj \<Rightarrow> world \<Rightarrow> error + world" where
  "onAdd m wd = load (wd\<lparr>this := (this wd)\<lparr>src_map := Some m\<rparr>\<rparr>)"

subsection \<open>Sequences of calls\<close>

text \<open>
  The calls on a source that do not run \<open>setCoordinates\<close>: every method of the file but
  \<open>setCoordinates\<close> itself and \<open>_finishLoading\<close>, which calls it (and so the image
  callback when it delivers an image).
\<close>

datatype call =
    Prepare
  | PrepareImage Image bool
  | LoadTile nat
  | Serialize
  | Load
  | OnAdd map_obj
  | GetImageFailed string

fun step :: "env \<Rightarrow> call \<Rightarrow> world \<Rightarrow> error + world" where
  "step e Prepare wd = prepare wd"
| "step e (PrepareImage img resize) wd = Inr (prepareImage img resize wd)"
| "step e (LoadTile tile) wd = Inr (snd (loadTile e tile wd))"
| "step e Serialize wd = Inr wd"
| "step e Load wd = load wd"
| "step e (OnAdd m) wd = onAdd m wd"
| "step e (GetImageFailed msg) wd = getImage_callback e (Some msg) None wd"

fun run :: "env \<Rightarrow> call list \<Rightarrow> world \<Rightarrow> error + world" where
  "run e [] wd = Inr wd"
| "run e (c # cs) wd = (case step e c wd of Inl x \<Rightarrow> Inl x | Inr wd1 \<Rightarrow> run e cs wd1)"

text \<open>\<open>prepare()\<close> called \<open>n\<close> times in a row.\<close>

fun prepares :: "nat \<Rightarrow> world \<Rightarrow> error + world" where
  "prepares 0 wd = Inr wd"
| "prepares (Suc n) wd = (case prepare wd of Inl x \<Rightarrow> Inl x | Inr wd1 \<Rightarrow> prepares n wd1)"

subsection \<open>Observations on the log of the context\<close>

fun isTextureCall :: "gl_call \<Rightarrow> bool" where
  "isTextureCall (NewVertexBuffer b arr) = False"
| "isTextureCall (DestroyBuffer b) = False"
| "isTextureCall c = True"

text \<open>The calls on textures, in order.\<close>

definition textureCalls :: "gl_call list \<Rightarrow> gl_call list" where
  "textureCalls cs = filter isTextureCall cs"

fun isCreateTexture :: "gl_call \<Rightarrow> bool" where
  "isCreateTexture (CreateTexture t) = True"
| "isCreateTexture c = False"

text \<open>How many textures have been created.\<close>

definition texturesCreated :: "gl_call list \<Rightarrow> nat" where
  "texturesCreated cs = length (filter isCreateTexture cs)"

subsection \<open>The geometry as the design description words it\<close>

text \<open>
  The anchor: the column and the row of the best-fit centre floored, its zoom as it is.
\<close>

definition spec_anchor :: "env \<Rightarrow> Coordinate list \<Rightarrow> TileCoord" where
  "spec_anchor e z0 =
     (let c = getCoordinatesCenter e z0
      in \<lparr>tc_z = zoom c, tc_x = of_int \<lfloor>column c\<rfloor>, tc_y = of_int \<lfloor>row c\<rfloor>, tc_w = 0\<rparr>)"

text \<open>
  A position: the zoom 0 corner at the zoom of the anchor, less the column and the row of
  the anchor, times \<open>EXTENT\<close>, rounded to the nearest integer (\<open>round\<close> of the library).
\<close>

definition spec_position :: "env \<Rightarrow> TileCoord \<Rightarrow> Coordinate \<Rightarrow> number \<times> number" where
  "spec_position e a c =
     (let p = zoomTo e c (tc_z a)
      in (of_int (round ((column p - tc_x a) * EXTENT e)),
          of_int (round ((row p - tc_y a) * EXTENT e))))"

text \<open>The same position before it is rounded.\<close>

definition exact_position :: "env \<Rightarrow> TileCoord \<Rightarrow> Coordinate \<Rightarrow> number \<times> number" where
  "exact_position e a c =
     (let p = zoomTo e c (tc_z a)
      in ((column p - tc_x a) * EXTENT e, (row p - tc_y a) * EXTENT e))"

text \<open>The point the source computes for one corner, given the floored centre.\<close>

definition cornerPoint :: "env \<Rightarrow> map_obj \<Rightarrow> Coordinate \<Rightarrow> lnglat \<Rightarrow> Point" where
  "cornerPoint e m cc c = hd (tileCoords e cc (cornerZ0Coords e m [c]))"

definition mkVertex :: "Point \<Rightarrow> number \<Rightarrow> number \<Rightarrow> vertex" where
  "mkVertex p tx ty = \<lparr>a_pos_x = pt_x p, a_pos_y = pt_y p, a_tex_x = tx, a_tex_y = ty\<rparr>"

subsection \<open>A sample environment\<close>

text \<open>
  Concrete collaborators, to run the methods on concrete inputs. They are samples, not
  the modules of the renderer: any other functions can take their place in \<open>env\<close>.
\<close>

text \<open>Scaling by a power of two between whole zoom levels.\<close>

definition sample_zoomTo :: "Coordinate \<Rightarrow> number \<Rightarrow> Coordinate" where
  "sample_zoomTo c zm =
     (let scale = (if zoom c \<le> zm then 2 ^ nat \<lfloor>zm - zoom c\<rfloor>
                   else 1 / 2 ^ nat \<lfloor>zoom c - zm\<rfloor>)
      in \<lparr>column = column c * scale, row = row c * scale, zoom = zm\<rparr>)"

text \<open>
  The centre of the bounding box, at the deepest of the zoom levels 0 to 24 at which the
  box is at most one tile wide and high.
\<close>

definition sample_fitZoom :: "number \<Rightarrow> nat" where
  "sample_fitZoom d = length (takeWhile (\<lambda>k. d * 2 ^ (k + 1) \<le> 1) [0..<24])"

definition sample_getCoordinatesCenter :: "Coordinate list \<Rightarrow> Coordinate" where
  "sample_getCoordinatesCenter cs =
     (case cs of
        [] \<Rightarrow> \<lparr>column = 0, row = 0, zoom = 0\<rparr>
      | c # rest \<Rightarrow>
          (let minX = foldr min (map column rest) (column c);
               maxX = foldr max (map column rest) (column c);
               minY = foldr min (map row rest) (row c);
               maxY = foldr max (map row rest) (row c);
               dMax = max (maxX - minX) (maxY - minY)
           in sample_zoomTo \<lparr>column = (minX + maxX) / 2, row = (minY + maxY) / 2, zoom = 0\<rparr>
                (of_nat (sample_fitZoom dMax))))"

text \<open>Decimal numerals of natural numbers.\<close>

fun decimal :: "nat \<Rightarrow> string" where
  "decimal n =
     (if n < 10 then [''0123456789'' ! n]
      else decimal (n div 10) @ [''0123456789'' ! (n mod 10)])"

text \<open>
  \<open>z/x/y\<close>, the wrap index left out. On whole numbers that are not negative, as the
  fields of an anchor are, the numerals are those JavaScript prints.
\<close>

definition sample_toString :: "TileCoord \<Rightarrow> string" where
  "sample_toString c =
     decimal (nat \<lfloor>tc_z c\<rfloor>) @ ''/'' @ decimal (nat \<lfloor>tc_x c\<rfloor>) @ ''/'' @ decimal (nat \<lfloor>tc_y c\<rfloor>)"

definition sample_env :: env where
  "sample_env =
     \<lparr>getCoordinatesCenter = sample_getCoordinatesCenter,
      zoomTo = sample_zoomTo,
      EXTENT = 8192,
      toString = sample_toString\<rparr>"

text \<open>An equirectangular projection to zoom 0 tile space.\<close>

definition sample_map :: map_obj where
  "sample_map =
     \<lparr>locationCoordinate =
        (\<lambda>c. \<lparr>column = (fst c + 180) / 360, row = (90 - snd c) / 180, zoom = 0\<rparr>)\<rparr>"

text \<open>The corners of the example in the documentation of the class (lines 31-36).\<close>

definition sample_corners :: "lnglat list" where
  "sample_corners =
     [(- 7654 / 100, 3918 / 100), (- 7652 / 100, 3918 / 100),
      (- 7652 / 100, 3917 / 100), (- 7654 / 100, 3917 / 100)]"

text \<open>The corners of the update in the same example (lines 41-46).\<close>

definition sample_update_corners :: "lnglat list" where
  "sample_update_corners =
     [(- 7654335737228394 / 100000000000000, 3918579907229748 / 100000000000000),
      (- 7652803659439087 / 100000000000000, 391838364847587 / 10000000000000),
      (- 765295386314392 / 10000000000000, 3917683392507606 / 100000000000000),
      (- 7654520273208618 / 100000000000000, 3917876344106642 / 100000000000000)]"

definition sample_options :: object where
  "sample_options =
     [(''type'', Str ''image''),
      (''url'', Str ''https://www.mapbox.com/images/foo.png''),
      (''coordinates'', Coords sample_corners)]"

text \<open>A store in which every tile is a fresh tile at 0/0/0.\<close>

definition blank_tile :: Tile where
  "blank_tile =
     \<lparr>tile_coord = \<lparr>tc_z = 0, tc_x = 0, tc_y = 0, tc_w = 0\<rparr>,
      state = ''loading'', tile_texture = None, buckets = []\<rparr>"

definition new_world :: "ImageSource \<Rightarrow> world" where
  "new_world s = \<lparr>this = s, heap = (\<lambda>r. blank_tile), gl = [], fired = [], requests = []\<rparr>"

text \<open>A source constructed from the sample options, before and after it is added to the map.\<close>

definition sample_source :: ImageSource where
  "sample_source = constructor ''some id'' sample_options 0 0"

definition sample_attached :: world where
  "sample_attached = new_world (sample_source\<lparr>src_map := Some sample_map\<rparr>)"

text \<open>
  The scenario of the design description: the anchor is 5/10/12; tile 10 is the request
  for 5/10/12 in the world copy 1, tile 20 the request for 5/10/13.
\<close>

definition sample_anchored :: world where
  "sample_anchored =
     sample_attached
       \<lparr>this := (this sample_attached)\<lparr>coord := Some (new_TileCoord 5 10 12)\<rparr>,
        heap := (\<lambda>r. if r = 10 then
                    \<lparr>tile_coord = \<lparr>tc_z = 5, tc_x = 10, tc_y = 12, tc_w = 1\<rparr>,
                      state = ''loading'', tile_texture = None, buckets = [(''overlay'', 7)]\<rparr>
                  else if r = 20 then
                    \<lparr>tile_coord = \<lparr>tc_z = 5, tc_x = 10, tc_y = 13, tc_w = 0\<rparr>,
                      state = ''loading'', tile_texture = None, buckets = [(''overlay'', 8)]\<rparr>
                  else blank_tile)\<rparr>"

text \<open>An attached source whose image has arrived and that has claimed tile 0.\<close>

definition sample_ready :: world where
  "sample_ready =
     sample_attached
       \<lparr>this := (this sample_attached)
          \<lparr>src_image := Some (HTMLImageElement 0), tiles := [(0, 0)]\<rparr>\<rparr>"

declare decimal.simps [simp del]

section \<open>Properties\<close>

subsection \<open>The logs and the parts of setCoordinates\<close>


lemma this_fire [simp]: "this (fire n d wd) = this wd"
  and heap_fire [simp]: "heap (fire n d wd) = heap wd"
  and gl_fire [simp]: "gl (fire n d wd) = gl wd"
  and requests_fire [simp]: "requests (fire n d wd) = requests wd"
  and fired_fire [simp]: "fired (fire n d wd) = fired wd @ [Event n d]"
  by (simp_all add: fire_def)

lemma this_gl_do [simp]: "this (gl_do cs wd) = this wd"
  and heap_gl_do [simp]: "heap (gl_do cs wd) = heap wd"
  and gl_gl_do [simp]: "gl (gl_do cs wd) = gl wd @ cs"
  and fired_gl_do [simp]: "fired (gl_do cs wd) = fired wd"
  and requests_gl_do [simp]: "requests (gl_do cs wd) = requests wd"
  by (simp_all add: gl_do_def)

lemma length_tileCoords [simp]: "length (tileCoords e cc z0) = length z0"
  by (simp add: tileCoords_def)

lemma length_cornerZ0Coords [simp]: "length (cornerZ0Coords e m cs) = length cs"
  by (simp add: cornerZ0Coords_def)

lemma setCoordinates_returns:
  assumes "src_map (this wd) = Some m" and "4 \<le> length cs"
  shows "setCoordinates e (Coords cs) wd =
     Inr (fire ''data'' [(''dataType'', ''source''), (''sourceDataType'', ''content'')]
           (destroyBoundsBuffer (wd\<lparr>this := geometry_of e m cs (this wd)\<rparr>)))"
  using assms by (simp add: setCoordinates_def geometry_of_def Let_def)

lemma setCoordinates_Inr_D:
  "setCoordinates e cds wd = Inr wd' \<Longrightarrow>
     \<exists>cs m. cds = Coords cs \<and> src_map (this wd) = Some m \<and> 4 \<le> length cs"
  by (auto simp: setCoordinates_def Let_def split: jsvalue.splits option.splits if_splits)

lemma this_destroyBoundsBuffer:
  "this (destroyBoundsBuffer wd) = (this wd)\<lparr>boundsBuffer := None\<rparr>"
  by (cases "boundsBuffer (this wd)") (simp_all add: destroyBoundsBuffer_def)

lemma gl_destroyBoundsBuffer:
  "gl (destroyBoundsBuffer wd) =
     gl wd @ (case boundsBuffer (this wd) of None \<Rightarrow> [] | Some b \<Rightarrow> [DestroyBuffer b])"
  by (cases "boundsBuffer (this wd)") (simp_all add: destroyBoundsBuffer_def)

lemma rest_destroyBoundsBuffer [simp]:
  "heap (destroyBoundsBuffer wd) = heap wd"
  "fired (destroyBoundsBuffer wd) = fired wd"
  "requests (destroyBoundsBuffer wd) = requests wd"
  by (cases "boundsBuffer (this wd)"; simp add: destroyBoundsBuffer_def)+

lemma geometry_of_fields:
  "src_map (geometry_of e m cs s) = src_map s"
  "boundsBuffer (geometry_of e m cs s) = boundsBuffer s"
  "texture (geometry_of e m cs s) = texture s"
  "textureLoaded (geometry_of e m cs s) = textureLoaded s"
  "tiles (geometry_of e m cs s) = tiles s"
  "src_image (geometry_of e m cs s) = src_image s"
  "minzoom (geometry_of e m cs s) = zoom (flooredCenter e (cornerZ0Coords e m cs))"
  "maxzoom (geometry_of e m cs s) = zoom (flooredCenter e (cornerZ0Coords e m cs))"
  "centerCoord (geometry_of e m cs s) = Some (flooredCenter e (cornerZ0Coords e m cs))"
  "coord (geometry_of e m cs s) =
     Some (new_TileCoord (zoom (flooredCenter e (cornerZ0Coords e m cs)))
            (column (flooredCenter e (cornerZ0Coords e m cs)))
            (row (flooredCenter e (cornerZ0Coords e m cs))))"
  "boundsArray (geometry_of e m cs s) =
     Some (buildBoundsArray e
       (tileCoords e (flooredCenter e (cornerZ0Coords e m cs)) (cornerZ0Coords e m cs)))"
  by (simp_all add: geometry_of_def Let_def)

text \<open>What a returning call leaves in the world.\<close>

lemma setCoordinates_this:
  assumes "src_map (this wd) = Some m" and "4 \<le> length cs"
    and "setCoordinates e (Coords cs) wd = Inr wd'"
  shows "this wd' = (geometry_of e m cs (this wd))\<lparr>boundsBuffer := None\<rparr>"
    and "heap wd' = heap wd"
    and "gl wd' = gl wd @ (case boundsBuffer (this wd) of None \<Rightarrow> [] | Some b \<Rightarrow> [DestroyBuffer b])"
  using assms(3) unfolding setCoordinates_returns [OF assms(1,2)]
  by (auto simp: this_destroyBoundsBuffer gl_destroyBoundsBuffer geometry_of_fields)

subsection \<open>prepareImage\<close>

lemma markTiles_apply:
  "markTiles tex ts h r =
     (if r \<in> snd ` set ts \<and> state (h r) \<noteq> ''loaded''
      then (h r)\<lparr>state := ''loaded'', tile_texture := tex\<rparr> else h r)"
  by (induction tex ts h rule: markTiles.induct) (auto simp: image_iff)

lemma ensureBoundsBuffer_fields:
  "boundsBuffer (this (ensureBoundsBuffer wd)) =
     Some (case boundsBuffer (this wd) of None \<Rightarrow> length (gl wd) | Some b \<Rightarrow> b)"
  "gl (ensureBoundsBuffer wd) =
     gl wd @ (case boundsBuffer (this wd) of
                None \<Rightarrow> [NewVertexBuffer (length (gl wd)) (boundsArray (this wd))]
              | Some b \<Rightarrow> [])"
  "heap (ensureBoundsBuffer wd) = heap wd"
  "fired (ensureBoundsBuffer wd) = fired wd"
  "requests (ensureBoundsBuffer wd) = requests wd"
  "textureLoaded (this (ensureBoundsBuffer wd)) = textureLoaded (this wd)"
  "texture (this (ensureBoundsBuffer wd)) = texture (this wd)"
  "tiles (this (ensureBoundsBuffer wd)) = tiles (this wd)"
  "src_image (this (ensureBoundsBuffer wd)) = src_image (this wd)"
  "src_map (this (ensureBoundsBuffer wd)) = src_map (this wd)"
  "coord (this (ensureBoundsBuffer wd)) = coord (this wd)"
  "minzoom (this (ensureBoundsBuffer wd)) = minzoom (this wd)"
  "maxzoom (this (ensureBoundsBuffer wd)) = maxzoom (this wd)"
  "boundsArray (this (ensureBoundsBuffer wd)) = boundsArray (this wd)"
  by (cases "boundsBuffer (this wd)"; simp add: ensureBoundsBuffer_def Let_def)+

lemma ensureBoundsVAO_fields:
  "boundsBuffer (this (ensureBoundsVAO wd)) = boundsBuffer (this wd)"
  "gl (ensureBoundsVAO wd) = gl wd"
  "heap (ensureBoundsVAO wd) = heap wd"
  "fired (ensureBoundsVAO wd) = fired wd"
  "requests (ensureBoundsVAO wd) = requests wd"
  "textureLoaded (this (ensureBoundsVAO wd)) = textureLoaded (this wd)"
  "texture (this (ensureBoundsVAO wd)) = texture (this wd)"
  "tiles (this (ensureBoundsVAO wd)) = tiles (this wd)"
  "src_image (this (ensureBoundsVAO wd)) = src_image (this wd)"
  "src_map (this (ensureBoundsVAO wd)) = src_map (this wd)"
  "coord (this (ensureBoundsVAO wd)) = coord (this wd)"
  "minzoom (this (ensureBoundsVAO wd)) = minzoom (this wd)"
  "maxzoom (this (ensureBoundsVAO wd)) = maxzoom (this wd)"
  "boundsArray (this (ensureBoundsVAO wd)) = boundsArray (this wd)"
  by (simp_all add: ensureBoundsVAO_def)

lemma updateTexture_fields:
  "gl (updateTexture img r wd) = gl wd @ uploadCalls img r (length (gl wd)) (this wd)"
  "textureLoaded (this (updateTexture img r wd))"
  "texture (this (updateTexture img r wd)) =
     (if textureLoaded (this wd) then texture (this wd) else Some (length (gl wd)))"
  "boundsBuffer (this (updateTexture img r wd)) = boundsBuffer (this wd)"
  "heap (updateTexture img r wd) = heap wd"
  "fired (updateTexture img r wd) = fired wd"
  "requests (updateTexture img r wd) = requests wd"
  "tiles (this (updateTexture img r wd)) = tiles (this wd)"
  "src_image (this (updateTexture img r wd)) = src_image (this wd)"
  "src_map (this (updateTexture img r wd)) = src_map (this wd)"
  "coord (this (updateTexture img r wd)) = coord (this wd)"
  "minzoom (this (updateTexture img r wd)) = minzoom (this wd)"
  "maxzoom (this (updateTexture img r wd)) = maxzoom (this wd)"
  "boundsArray (this (updateTexture img r wd)) = boundsArray (this wd)"
  by (simp_all add: updateTexture_def uploadCalls_def Let_def)

lemmas prepare_parts = ensureBoundsBuffer_fields ensureBoundsVAO_fields updateTexture_fields

lemma prepareImage_fields:
  "textureLoaded (this (prepareImage img r wd))"
  "tiles (this (prepareImage img r wd)) = tiles (this wd)"
  "src_image (this (prepareImage img r wd)) = src_image (this wd)"
  "src_map (this (prepareImage img r wd)) = src_map (this wd)"
  "coord (this (prepareImage img r wd)) = coord (this wd)"
  "minzoom (this (prepareImage img r wd)) = minzoom (this wd)"
  "maxzoom (this (prepareImage img r wd)) = maxzoom (this wd)"
  "boundsArray (this (prepareImage img r wd)) = boundsArray (this wd)"
  "fired (prepareImage img r wd) = fired wd"
  "requests (prepareImage img r wd) = requests wd"
  "boundsBuffer (this (prepareImage img r wd)) =
     Some (case boundsBuffer (this wd) of None \<Rightarrow> length (gl wd) | Some b \<Rightarrow> b)"
  by (simp_all add: prepareImage_def Let_def prepare_parts)

lemma prepareImage_texture:
  "textureLoaded (this wd) \<Longrightarrow> texture (this (prepareImage img r wd)) = texture (this wd)"
  "\<not> textureLoaded (this wd) \<Longrightarrow>
     texture (this (prepareImage img r wd)) = Some (length (gl (ensureBoundsBuffer wd)))"
  by (simp_all add: prepareImage_def Let_def prepare_parts)

lemma prepareImage_gl:
  "gl (prepareImage img r wd) =
     gl (ensureBoundsBuffer wd) @
       uploadCalls img r (length (gl (ensureBoundsBuffer wd))) (this wd)"
  by (simp add: prepareImage_def Let_def prepare_parts uploadCalls_def)

lemma prepareImage_heap:
  "heap (prepareImage img r wd) =
     markTiles (texture (this (prepareImage img r wd))) (tiles (this wd)) (heap wd)"
  by (simp add: prepareImage_def Let_def prepare_parts)

lemma textureCalls_append [simp]: "textureCalls (xs @ ys) = textureCalls xs @ textureCalls ys"
  by (simp add: textureCalls_def)

lemma texturesCreated_append [simp]:
  "texturesCreated (xs @ ys) = texturesCreated xs + texturesCreated ys"
  by (simp add: texturesCreated_def)

lemma textureCalls_ensureBoundsBuffer:
  "textureCalls (gl (ensureBoundsBuffer wd)) = textureCalls (gl wd)"
  by (cases "boundsBuffer (this wd)") (simp_all add: ensureBoundsBuffer_fields textureCalls_def)

lemma texturesCreated_ensureBoundsBuffer:
  "texturesCreated (gl (ensureBoundsBuffer wd)) = texturesCreated (gl wd)"
  by (cases "boundsBuffer (this wd)") (simp_all add: ensureBoundsBuffer_fields texturesCreated_def)

lemma textureCalls_uploadCalls [simp]:
  "textureCalls (uploadCalls img r t s) = uploadCalls img r t s"
  by (simp add: textureCalls_def uploadCalls_def createCalls_def)

lemma texturesCreated_uploadCalls:
  "texturesCreated (uploadCalls img r t s) = (if textureLoaded s then 0 else 1)"
  by (simp add: texturesCreated_def uploadCalls_def createCalls_def)

lemma sample_attached_map: "src_map (this sample_attached) = Some sample_map"
  by (simp add: sample_attached_def new_world_def)

lemma sample_corners_length: "4 \<le> length sample_corners"
  by (simp add: sample_corners_def)

text \<open>Evaluating the samples: the definitions to unfold.\<close>

lemma of_int_eq_neg_numeral_iff [simp]:
  "(of_int z :: rat) = - numeral n \<longleftrightarrow> z = - numeral n"
  using of_int_eq_iff [of z "- numeral n", where ?'a = rat] by simp

lemmas sample_defs =
  cornerZ0Coords_def flooredCenter_def tileCoords_def sample_env_def sample_map_def
  sample_getCoordinatesCenter_def sample_fitZoom_def sample_zoomTo_def
  Math_floor_def Math_round_def spec_anchor_def spec_position_def exact_position_def
  Let_def upt_rec floor_eq_iff round_def

lemma sample_center:
  "flooredCenter sample_env (cornerZ0Coords sample_env sample_map sample_corners) =
     \<lparr>column = 4709, row = 4626, zoom = 14\<rparr>"
  by (simp add: sample_defs sample_corners_def)

lemma sample_tileCoords:
  "tileCoords sample_env \<lparr>column = 4709, row = 4626, zoom = 14\<rparr>
     (cornerZ0Coords sample_env sample_map sample_corners) =
     [\<lparr>pt_x = - 3444, pt_y = - 2053\<rparr>, \<lparr>pt_x = 4012, pt_y = - 2053\<rparr>,
      \<lparr>pt_x = 4012, pt_y = 5403\<rparr>, \<lparr>pt_x = - 3444, pt_y = 5403\<rparr>]"
  by (simp add: sample_defs sample_corners_def)

subsection \<open>The zoom range after setCoordinates\<close>

lemma step_keeps_anchor:
  "step e c wd = Inr wd' \<Longrightarrow>
     coord (this wd') = coord (this wd) \<and> minzoom (this wd') = minzoom (this wd) \<and>
     maxzoom (this wd') = maxzoom (this wd)"
  by (cases c)
    (auto simp: prepare_def prepareImage_fields loadTile_def Let_def load_def onAdd_def
       getImage_callback_def split: option.splits if_splits)

lemma run_keeps_anchor:
  "run e cs wd = Inr wd' \<Longrightarrow>
     coord (this wd') = coord (this wd) \<and> minzoom (this wd') = minzoom (this wd) \<and>
     maxzoom (this wd') = maxzoom (this wd)"
proof (induction cs arbitrary: wd)
  case Nil
  then show ?case by simp
next
  case (Cons c cs)
  then obtain wd1 where s: "step e c wd = Inr wd1" and r: "run e cs wd1 = Inr wd'"
    by (auto split: sum.splits)
  from Cons.IH [OF r] step_keeps_anchor [OF s] show ?case by simp
qed

text \<open>
  Claim C2. A call of \<open>setCoordinates\<close> with four (or more) corners on a source that is
  attached to a map returns, and when it has returned \<open>minzoom\<close> and \<open>maxzoom\<close> are
  both the zoom of the anchor \<open>this.coord\<close>. The three stay as they are through every
  sequence of the other calls (\<open>prepare\<close>, \<open>_prepareImage\<close>, \<open>loadTile\<close>, \<open>serialize\<close>,
  \<open>load\<close>, \<open>onAdd\<close>, a failed image request), that is until \<open>setCoordinates\<close> runs again.
\<close>

theorem setCoordinates_pins_zoom:
  assumes "src_map (this wd) = Some m" and "4 \<le> length cs"
  shows "\<exists>wd1 a. setCoordinates e (Coords cs) wd = Inr wd1 \<and>
           coord (this wd1) = Some a \<and>
           minzoom (this wd1) = tc_z a \<and> maxzoom (this wd1) = tc_z a \<and>
           (\<forall>calls wd2. run e calls wd1 = Inr wd2 \<longrightarrow>
              coord (this wd2) = Some a \<and>
              minzoom (this wd2) = tc_z a \<and> maxzoom (this wd2) = tc_z a)"
proof -
  obtain wd1 where r: "setCoordinates e (Coords cs) wd = Inr wd1"
    using setCoordinates_returns [OF assms] by blast
  define a where "a = new_TileCoord (zoom (flooredCenter e (cornerZ0Coords e m cs)))
            (column (flooredCenter e (cornerZ0Coords e m cs)))
            (row (flooredCenter e (cornerZ0Coords e m cs)))"
  have now: "coord (this wd1) = Some a \<and> minzoom (this wd1) = tc_z a \<and> maxzoom (this wd1) = tc_z a"
    using setCoordinates_this(1) [OF assms r]
    by (simp add: geometry_of_fields a_def new_TileCoord_def)
  have "coord (this wd2) = Some a \<and> minzoom (this wd2) = tc_z a \<and> maxzoom (this wd2) = tc_z a"
    if "run e calls wd1 = Inr wd2" for calls wd2
    using run_keeps_anchor [OF that] now by simp
  with r now show ?thesis by blast
qed

text \<open>
  The sample source with the corners of the class documentation: the anchor is
  14/4709/4626, and 14 is the zoom range, also after a \<open>loadTile\<close> and a \<open>serialize\<close>.
\<close>

theorem setCoordinates_pins_zoom_witness:
  "src_map (this sample_attached) = Some sample_map \<and> 4 \<le> length sample_corners \<and>
   (\<exists>wd1. setCoordinates sample_env (Coords sample_corners) sample_attached = Inr wd1 \<and>
      coord (this wd1) = Some \<lparr>tc_z = 14, tc_x = 4709, tc_y = 4626, tc_w = 0\<rparr> \<and>
      minzoom (this wd1) = 14 \<and> maxzoom (this wd1) = 14 \<and>
      (\<exists>wd2. run sample_env [LoadTile 0, Serialize] wd1 = Inr wd2 \<and>
         minzoom (this wd2) = 14 \<and> maxzoom (this wd2) = 14))"
proof -
  from setCoordinates_pins_zoom [OF sample_attached_map sample_corners_length, of sample_env]
  obtain wd1 a where r: "setCoordinates sample_env (Coords sample_corners) sample_attached = Inr wd1"
    and a: "coord (this wd1) = Some a" "minzoom (this wd1) = tc_z a" "maxzoom (this wd1) = tc_z a"
    and later: "\<And>calls wd2. run sample_env calls wd1 = Inr wd2 \<Longrightarrow>
        minzoom (this wd2) = tc_z a \<and> maxzoom (this wd2) = tc_z a"
    by blast
  have c: "coord (this wd1) = Some \<lparr>tc_z = 14, tc_x = 4709, tc_y = 4626, tc_w = 0\<rparr>"
    using setCoordinates_this(1) [OF sample_attached_map sample_corners_length r]
    by (simp add: geometry_of_fields sample_center new_TileCoord_def)
  with a have z: "tc_z a = 14" by auto
  have run: "run sample_env [LoadTile 0, Serialize] wd1 =
          Inr (snd (loadTile sample_env 0 wd1))"
    by simp
  from later [OF run] z
  have "minzoom (this (snd (loadTile sample_env 0 wd1))) = 14"
    and "maxzoom (this (snd (loadTile sample_env 0 wd1))) = 14"
    by simp_all
  with run z a r c sample_attached_map sample_corners_length
  show ?thesis by auto
qed

subsection \<open>The order of the vertices\<close>

lemma cornerPoint_nth:
  "i < length cs \<Longrightarrow>
     tileCoords e cc (cornerZ0Coords e m cs) ! i = cornerPoint e m cc (cs ! i)"
  by (simp add: cornerPoint_def tileCoords_def cornerZ0Coords_def)

lemma cornerPoint_four:
  assumes "4 \<le> length cs"
  shows "tileCoords e cc (cornerZ0Coords e m cs) ! 0 = cornerPoint e m cc (cs ! 0)"
    and "tileCoords e cc (cornerZ0Coords e m cs) ! 1 = cornerPoint e m cc (cs ! 1)"
    and "tileCoords e cc (cornerZ0Coords e m cs) ! 2 = cornerPoint e m cc (cs ! 2)"
    and "tileCoords e cc (cornerZ0Coords e m cs) ! 3 = cornerPoint e m cc (cs ! 3)"
proof -
  have "0 < length cs" "1 < length cs" "2 < length cs" "3 < length cs"
    using assms by auto
  then show "tileCoords e cc (cornerZ0Coords e m cs) ! 0 = cornerPoint e m cc (cs ! 0)"
    and "tileCoords e cc (cornerZ0Coords e m cs) ! 1 = cornerPoint e m cc (cs ! 1)"
    and "tileCoords e cc (cornerZ0Coords e m cs) ! 2 = cornerPoint e m cc (cs ! 2)"
    and "tileCoords e cc (cornerZ0Coords e m cs) ! 3 = cornerPoint e m cc (cs ! 3)"
    by (simp_all only: cornerPoint_nth)
qed

lemma buildBoundsArray_vertices:
  "buildBoundsArray e tcs =
     [mkVertex (tcs ! 0) 0 0, mkVertex (tcs ! 1) (EXTENT e) 0,
      mkVertex (tcs ! 3) 0 (EXTENT e), mkVertex (tcs ! 2) (EXTENT e) (EXTENT e)]"
  by (simp add: buildBoundsArray_def emplaceBack_def mkVertex_def Let_def)

text \<open>
  Claim C3. The array \<open>setCoordinates\<close> builds has exactly four vertices: the point of
  corner 0 with the texture coordinate (0, 0), the point of corner 1 with (EXTENT, 0),
  the point of corner 3 with (0, EXTENT) and the point of corner 2 with (EXTENT, EXTENT).
  \<open>cornerPoint e m cc c\<close> is the point the method computes from the corner \<open>c\<close> alone,
  given the floored centre \<open>cc\<close>.
\<close>

theorem setCoordinates_vertex_order:
  assumes "src_map (this wd) = Some m" and "4 \<le> length cs"
  shows "\<exists>wd' cc. setCoordinates e (Coords cs) wd = Inr wd' \<and>
           centerCoord (this wd') = Some cc \<and>
           boundsArray (this wd') =
             Some [mkVertex (cornerPoint e m cc (cs ! 0)) 0 0,
                   mkVertex (cornerPoint e m cc (cs ! 1)) (EXTENT e) 0,
                   mkVertex (cornerPoint e m cc (cs ! 3)) 0 (EXTENT e),
                   mkVertex (cornerPoint e m cc (cs ! 2)) (EXTENT e) (EXTENT e)]"
proof -
  obtain wd' where r: "setCoordinates e (Coords cs) wd = Inr wd'"
    using setCoordinates_returns [OF assms] by blast
  have "boundsArray (this wd') =
      Some (buildBoundsArray e
        (tileCoords e (flooredCenter e (cornerZ0Coords e m cs)) (cornerZ0Coords e m cs)))"
    and "centerCoord (this wd') = Some (flooredCenter e (cornerZ0Coords e m cs))"
    using setCoordinates_this(1) [OF assms r] by (simp_all add: geometry_of_fields)
  then have "boundsArray (this wd') =
             Some [mkVertex (cornerPoint e m (flooredCenter e (cornerZ0Coords e m cs)) (cs ! 0)) 0 0,
                   mkVertex (cornerPoint e m (flooredCenter e (cornerZ0Coords e m cs)) (cs ! 1)) (EXTENT e) 0,
                   mkVertex (cornerPoint e m (flooredCenter e (cornerZ0Coords e m cs)) (cs ! 3)) 0 (EXTENT e),
                   mkVertex (cornerPoint e m (flooredCenter e (cornerZ0Coords e m cs)) (cs ! 2)) (EXTENT e) (EXTENT e)]"
    and "centerCoord (this wd') = Some (flooredCenter e (cornerZ0Coords e m cs))"
    unfolding buildBoundsArray_vertices cornerPoint_four [OF assms(2)] by blast+
  with r show ?thesis by blast
qed

text \<open>
  The corners (-76.54, 39.18), (-76.52, 39.18), (-76.52, 39.17), (-76.54, 39.17) on the
  sample map: vertex 2 is at (-3444, 5403), the point of corner 3; the point of corner 2,
  (4012, 5403), is vertex 3.
\<close>

theorem setCoordinates_vertex_order_witness:
  "src_map (this sample_attached) = Some sample_map \<and> 4 \<le> length sample_corners \<and>
   (\<exists>wd'. setCoordinates sample_env (Coords sample_corners) sample_attached = Inr wd' \<and>
      boundsArray (this wd') =
        Some [\<lparr>a_pos_x = - 3444, a_pos_y = - 2053, a_tex_x = 0, a_tex_y = 0\<rparr>,
              \<lparr>a_pos_x = 4012, a_pos_y = - 2053, a_tex_x = 8192, a_tex_y = 0\<rparr>,
              \<lparr>a_pos_x = - 3444, a_pos_y = 5403, a_tex_x = 0, a_tex_y = 8192\<rparr>,
              \<lparr>a_pos_x = 4012, a_pos_y = 5403, a_tex_x = 8192, a_tex_y = 8192\<rparr>]) \<and>
   cornerPoint sample_env sample_map \<lparr>column = 4709, row = 4626, zoom = 14\<rparr> (sample_corners ! 3) =
     \<lparr>pt_x = - 3444, pt_y = 5403\<rparr> \<and>
   cornerPoint sample_env sample_map \<lparr>column = 4709, row = 4626, zoom = 14\<rparr> (sample_corners ! 2) =
     \<lparr>pt_x = 4012, pt_y = 5403\<rparr>"
proof -
  let ?cc = "\<lparr>column = 4709, row = 4626, zoom = 14\<rparr>"
  from setCoordinates_vertex_order [OF sample_attached_map sample_corners_length, of sample_env]
  obtain wd' cc where r: "setCoordinates sample_env (Coords sample_corners) sample_attached = Inr wd'"
    and c: "centerCoord (this wd') = Some cc"
    and b: "boundsArray (this wd') =
             Some [mkVertex (cornerPoint sample_env sample_map cc (sample_corners ! 0)) 0 0,
                   mkVertex (cornerPoint sample_env sample_map cc (sample_corners ! 1)) (EXTENT sample_env) 0,
                   mkVertex (cornerPoint sample_env sample_map cc (sample_corners ! 3)) 0 (EXTENT sample_env),
                   mkVertex (cornerPoint sample_env sample_map cc (sample_corners ! 2)) (EXTENT sample_env) (EXTENT sample_env)]"
    by blast
  have "centerCoord (this wd') = Some ?cc"
    using setCoordinates_this(1) [OF sample_attached_map sample_corners_length r]
    by (simp add: geometry_of_fields sample_center)
  with c have cc: "cc = ?cc" by simp
  have p: "cornerPoint sample_env sample_map ?cc (sample_corners ! 0) = \<lparr>pt_x = - 3444, pt_y = - 2053\<rparr>"
    "cornerPoint sample_env sample_map ?cc (sample_corners ! 1) = \<lparr>pt_x = 4012, pt_y = - 2053\<rparr>"
    "cornerPoint sample_env sample_map ?cc (sample_corners ! 2) = \<lparr>pt_x = 4012, pt_y = 5403\<rparr>"
    "cornerPoint sample_env sample_map ?cc (sample_corners ! 3) = \<lparr>pt_x = - 3444, pt_y = 5403\<rparr>"
    using sample_tileCoords
    unfolding cornerPoint_four [OF sample_corners_length, symmetric] by simp_all
  have "EXTENT sample_env = 8192" by (simp add: sample_env_def)
  with r b cc p sample_attached_map sample_corners_length show ?thesis
    by (simp add: mkVertex_def)
qed


subsection \<open>How a position is computed\<close>

lemma Math_round_round: "Math_round v = of_int (round v)"
  by (simp add: Math_round_def round_def)

lemma flooredCenter_fields:
  "zoom (flooredCenter e z0) = zoom (getCoordinatesCenter e z0)"
  "column (flooredCenter e z0) = of_int \<lfloor>column (getCoordinatesCenter e z0)\<rfloor>"
  "row (flooredCenter e z0) = of_int \<lfloor>row (getCoordinatesCenter e z0)\<rfloor>"
  by (simp_all add: flooredCenter_def Math_floor_def Let_def)

lemma anchor_spec_anchor:
  "new_TileCoord (zoom (flooredCenter e z0)) (column (flooredCenter e z0))
     (row (flooredCenter e z0)) = spec_anchor e z0"
  by (simp add: new_TileCoord_def spec_anchor_def flooredCenter_fields Let_def)

lemma tileCoords_spec_position:
  "i < length z0 \<Longrightarrow>
     (pt_x (tileCoords e (flooredCenter e z0) z0 ! i),
      pt_y (tileCoords e (flooredCenter e z0) z0 ! i)) =
     spec_position e (spec_anchor e z0) (z0 ! i)"
  by (simp add: tileCoords_def spec_position_def spec_anchor_def flooredCenter_fields
      Math_round_round Let_def)

lemma round_near: "\<bar>of_int (round v) - v\<bar> * 2 \<le> (1::rat)"
  using of_int_round_abs_le [of v] by simp

lemma tileCoords_ints:
  "i < length z0 \<Longrightarrow> pt_x (tileCoords e cc z0 ! i) \<in> \<int> \<and> pt_y (tileCoords e cc z0 ! i) \<in> \<int>"
  by (simp add: tileCoords_def Math_round_def Let_def)

lemma spec_position_nearest:
  "\<bar>fst (spec_position e a c) - fst (exact_position e a c)\<bar> \<le> 1 / 2 \<and>
   \<bar>snd (spec_position e a c) - snd (exact_position e a c)\<bar> \<le> 1 / 2"
  by (simp add: spec_position_def exact_position_def Let_def round_near)

text \<open>
  Claim C4. After a returning call the anchor is the best-fit centre with its column and
  row floored and its zoom as returned (\<open>spec_anchor\<close>), and the positions of the four
  vertices are, for the zoom 0 corners 0, 1, 3, 2: the corner at the zoom of the anchor,
  less the column and row of the anchor, times \<open>EXTENT\<close>, rounded (\<open>spec_position\<close>).
  Each is a whole number at most one half away from the value before rounding
  (\<open>exact_position\<close>), which truncation towards zero does not give.
\<close>

theorem setCoordinates_positions:
  assumes "src_map (this wd) = Some m" and "4 \<le> length cs"
  shows "\<exists>wd' arr. setCoordinates e (Coords cs) wd = Inr wd' \<and>
           coord (this wd') = Some (spec_anchor e (cornerZ0Coords e m cs)) \<and>
           boundsArray (this wd') = Some arr \<and>
           map (\<lambda>v. (a_pos_x v, a_pos_y v)) arr =
             map (\<lambda>i. spec_position e (spec_anchor e (cornerZ0Coords e m cs))
                        (cornerZ0Coords e m cs ! i)) [0, 1, 3, 2] \<and>
           (\<forall>v \<in> set arr. a_pos_x v \<in> \<int> \<and> a_pos_y v \<in> \<int>) \<and>
           (\<forall>k < 4.
              \<bar>a_pos_x (arr ! k) -
                fst (exact_position e (spec_anchor e (cornerZ0Coords e m cs))
                      (cornerZ0Coords e m cs ! ([0, 1, 3, 2] ! k)))\<bar> \<le> 1 / 2 \<and>
              \<bar>a_pos_y (arr ! k) -
                snd (exact_position e (spec_anchor e (cornerZ0Coords e m cs))
                      (cornerZ0Coords e m cs ! ([0, 1, 3, 2] ! k)))\<bar> \<le> 1 / 2)"
proof -
  let ?z0 = "cornerZ0Coords e m cs"
  let ?a = "spec_anchor e ?z0"
  let ?tcs = "tileCoords e (flooredCenter e ?z0) ?z0"
  obtain wd' where r: "setCoordinates e (Coords cs) wd = Inr wd'"
    using setCoordinates_returns [OF assms] by blast
  have c: "coord (this wd') = Some ?a"
    using setCoordinates_this(1) [OF assms r]
    by (simp add: geometry_of_fields anchor_spec_anchor)
  have b: "boundsArray (this wd') = Some (buildBoundsArray e ?tcs)"
    using setCoordinates_this(1) [OF assms r] by (simp add: geometry_of_fields)
  have len: "0 < length ?z0" "1 < length ?z0" "2 < length ?z0" "3 < length ?z0"
    using assms(2) by auto
  have p: "(pt_x (?tcs ! 0), pt_y (?tcs ! 0)) = spec_position e ?a (?z0 ! 0)"
    "(pt_x (?tcs ! 1), pt_y (?tcs ! 1)) = spec_position e ?a (?z0 ! 1)"
    "(pt_x (?tcs ! 2), pt_y (?tcs ! 2)) = spec_position e ?a (?z0 ! 2)"
    "(pt_x (?tcs ! 3), pt_y (?tcs ! 3)) = spec_position e ?a (?z0 ! 3)"
    using len by (simp_all only: tileCoords_spec_position)
  have m: "map (\<lambda>v. (a_pos_x v, a_pos_y v)) (buildBoundsArray e ?tcs) =
      map (\<lambda>i. spec_position e ?a (?z0 ! i)) [0, 1, 3, 2]"
    using p by (simp add: buildBoundsArray_vertices mkVertex_def)
  have ints: "\<forall>v \<in> set (buildBoundsArray e ?tcs). a_pos_x v \<in> \<int> \<and> a_pos_y v \<in> \<int>"
    using len by (simp add: buildBoundsArray_vertices mkVertex_def tileCoords_ints)
  have near: "\<bar>a_pos_x (buildBoundsArray e ?tcs ! k) -
                fst (exact_position e ?a (?z0 ! ([0, 1, 3, 2] ! k)))\<bar> \<le> 1 / 2 \<and>
              \<bar>a_pos_y (buildBoundsArray e ?tcs ! k) -
                snd (exact_position e ?a (?z0 ! ([0, 1, 3, 2] ! k)))\<bar> \<le> 1 / 2"
    if "k < 4" for k
  proof -
    from that consider "k = 0" | "k = 1" | "k = 2" | "k = 3"
      by linarith
    then have "(a_pos_x (buildBoundsArray e ?tcs ! k), a_pos_y (buildBoundsArray e ?tcs ! k)) =
        spec_position e ?a (?z0 ! ([0, 1, 3, 2] ! k))"
      using p by cases (simp_all add: buildBoundsArray_vertices mkVertex_def)
    then show ?thesis
      using spec_position_nearest [of e ?a "?z0 ! ([0, 1, 3, 2] ! k)"]
      by (metis fst_conv snd_conv)
  qed
  from r c b m ints near show ?thesis by blast
qed

lemma sample_update_corners_length: "4 \<le> length sample_update_corners"
  by (simp add: sample_update_corners_def)

lemma sample_update_anchor:
  "spec_anchor sample_env (cornerZ0Coords sample_env sample_map sample_update_corners) =
     \<lparr>tc_z = 14, tc_x = 4708, tc_y = 4625, tc_w = 0\<rparr>"
  by (simp add: sample_defs sample_update_corners_def)

lemma sample_update_positions:
  "map (\<lambda>i. spec_position sample_env \<lparr>tc_z = 14, tc_x = 4708, tc_y = 4625, tc_w = 0\<rparr>
              (cornerZ0Coords sample_env sample_map sample_update_corners ! i)) [0, 1, 3, 2] =
     [(3496, 1814), (9208, 3278), (2808, 7061), (8648, 8499)]"
  by (simp add: sample_defs sample_update_corners_def)

lemma sample_update_exact:
  "3495 < fst (exact_position sample_env \<lparr>tc_z = 14, tc_x = 4708, tc_y = 4625, tc_w = 0\<rparr>
                (cornerZ0Coords sample_env sample_map sample_update_corners ! 0))"
  "fst (exact_position sample_env \<lparr>tc_z = 14, tc_x = 4708, tc_y = 4625, tc_w = 0\<rparr>
         (cornerZ0Coords sample_env sample_map sample_update_corners ! 0)) < 3496"
  by (simp_all add: sample_defs sample_update_corners_def)

text \<open>
  The corners of the update in the class documentation on the sample map: the anchor is
  14/4708/4625 and vertex 0 is at x = 3496 where the value before rounding lies between
  3495 and 3496, so truncation would give 3495.
\<close>

theorem setCoordinates_positions_witness:
  "src_map (this sample_attached) = Some sample_map \<and> 4 \<le> length sample_update_corners \<and>
   (\<exists>wd' arr.
      setCoordinates sample_env (Coords sample_update_corners) sample_attached = Inr wd' \<and>
      coord (this wd') = Some \<lparr>tc_z = 14, tc_x = 4708, tc_y = 4625, tc_w = 0\<rparr> \<and>
      boundsArray (this wd') = Some arr \<and>
      map (\<lambda>v. (a_pos_x v, a_pos_y v)) arr =
        [(3496, 1814), (9208, 3278), (2808, 7061), (8648, 8499)]) \<and>
   3495 < fst (exact_position sample_env \<lparr>tc_z = 14, tc_x = 4708, tc_y = 4625, tc_w = 0\<rparr>
                (cornerZ0Coords sample_env sample_map sample_update_corners ! 0)) \<and>
   fst (exact_position sample_env \<lparr>tc_z = 14, tc_x = 4708, tc_y = 4625, tc_w = 0\<rparr>
         (cornerZ0Coords sample_env sample_map sample_update_corners ! 0)) < 3496"
proof -
  from setCoordinates_positions
    [OF sample_attached_map sample_update_corners_length, of sample_env]
  obtain wd' arr
    where "setCoordinates sample_env (Coords sample_update_corners) sample_attached = Inr wd'"
      and "coord (this wd') =
        Some (spec_anchor sample_env
               (cornerZ0Coords sample_env sample_map sample_update_corners))"
      and "boundsArray (this wd') = Some arr"
      and "map (\<lambda>v. (a_pos_x v, a_pos_y v)) arr =
        map (\<lambda>i. spec_position sample_env
                   (spec_anchor sample_env
                     (cornerZ0Coords sample_env sample_map sample_update_corners))
                   (cornerZ0Coords sample_env sample_map sample_update_corners ! i))
          [0, 1, 3, 2]"
    by blast
  then have "\<exists>wd' arr.
      setCoordinates sample_env (Coords sample_update_corners) sample_attached = Inr wd' \<and>
      coord (this wd') = Some \<lparr>tc_z = 14, tc_x = 4708, tc_y = 4625, tc_w = 0\<rparr> \<and>
      boundsArray (this wd') = Some arr \<and>
      map (\<lambda>v. (a_pos_x v, a_pos_y v)) arr =
        [(3496, 1814), (9208, 3278), (2808, 7061), (8648, 8499)]"
    unfolding sample_update_anchor sample_update_positions
    by - (intro exI conjI, assumption+)
  with sample_attached_map sample_update_corners_length sample_update_exact
  show ?thesis by - (intro conjI, assumption+)
qed

subsection \<open>The vertex buffer and the texture across setCoordinates\<close>

text \<open>
  Claim C6. A returning call of \<open>setCoordinates\<close> on a source that has a vertex buffer
  \<open>b\<close> makes exactly one call on the context, \<open>b.destroy()\<close>, and leaves
  \<open>this.boundsBuffer\<close> unset, so that the next \<open>_prepareImage\<close> starts by creating a new
  buffer from the new array. \<open>this.texture\<close>, \<open>this.textureLoaded\<close> and the tiles are as
  before.
\<close>

theorem setCoordinates_retires_buffer:
  assumes "src_map (this wd) = Some m" and "4 \<le> length cs"
    and "boundsBuffer (this wd) = Some b"
  shows "\<exists>wd'. setCoordinates e (Coords cs) wd = Inr wd' \<and>
           boundsBuffer (this wd') = None \<and>
           gl wd' = gl wd @ [DestroyBuffer b] \<and>
           texture (this wd') = texture (this wd) \<and>
           textureLoaded (this wd') = textureLoaded (this wd) \<and>
           heap wd' = heap wd \<and>
           (\<forall>img r. boundsBuffer (this (prepareImage img r wd')) = Some (length (gl wd')) \<and>
              gl (prepareImage img r wd') ! length (gl wd') =
                NewVertexBuffer (length (gl wd')) (boundsArray (this wd')))"
proof -
  obtain wd' where r: "setCoordinates e (Coords cs) wd = Inr wd'"
    using setCoordinates_returns [OF assms(1,2)] by blast
  note eff = setCoordinates_this [OF assms(1,2) r]
  have none: "boundsBuffer (this wd') = None"
    using eff(1) by simp
  have "gl (prepareImage img r wd') ! length (gl wd') =
      NewVertexBuffer (length (gl wd')) (boundsArray (this wd'))" for img r
    using none by (simp add: prepareImage_gl ensureBoundsBuffer_fields nth_append)
  moreover have "boundsBuffer (this (prepareImage img r wd')) = Some (length (gl wd'))" for img r
    using none by (simp add: prepareImage_fields)
  ultimately show ?thesis
    using r none eff assms(3) by (simp add: geometry_of_fields)
qed

text \<open>
  The sample source after one \<open>_prepareImage\<close> has the buffer 0 and the texture 1; a
  \<open>setCoordinates\<close> destroys buffer 0 and keeps texture 1.
\<close>

theorem setCoordinates_retires_buffer_witness:
  "src_map (this (prepareImage (HTMLImageElement 0) False sample_ready)) = Some sample_map \<and>
   4 \<le> length sample_corners \<and>
   boundsBuffer (this (prepareImage (HTMLImageElement 0) False sample_ready)) = Some 0 \<and>
   texture (this (prepareImage (HTMLImageElement 0) False sample_ready)) = Some 1 \<and>
   (\<exists>wd'. setCoordinates sample_env (Coords sample_corners)
            (prepareImage (HTMLImageElement 0) False sample_ready) = Inr wd' \<and>
      boundsBuffer (this wd') = None \<and>
      gl wd' = gl (prepareImage (HTMLImageElement 0) False sample_ready) @ [DestroyBuffer 0] \<and>
      texture (this wd') = Some 1 \<and> textureLoaded (this wd'))"
proof -
  let ?wd = "prepareImage (HTMLImageElement 0) False sample_ready"
  have m: "src_map (this ?wd) = Some sample_map"
    by (simp add: prepareImage_fields sample_ready_def sample_attached_def new_world_def)
  have b: "boundsBuffer (this ?wd) = Some 0"
    by (simp add: prepareImage_fields sample_ready_def sample_attached_def new_world_def
        sample_source_def constructor_def)
  have t: "texture (this ?wd) = Some 1" "textureLoaded (this ?wd)"
    by (simp_all add: prepareImage_texture prepareImage_fields ensureBoundsBuffer_fields
        sample_ready_def sample_attached_def new_world_def sample_source_def constructor_def)
  from setCoordinates_retires_buffer [OF m sample_corners_length b, of sample_env] t m b
    sample_corners_length
  show ?thesis by auto
qed

subsection \<open>setCoordinates is a function of the corners and the projection\<close>

text \<open>
  Claim C9. If \<open>setCoordinates\<close> returns, then the same call made again right after
  returns too, with the same array of vertices, anchor, centre and zoom range; and the
  same call on any other state of a source with the same map gives the same array,
  anchor and centre.
\<close>

theorem setCoordinates_same_geometry:
  assumes "setCoordinates e cds wd = Inr wd1"
  shows "(\<exists>wd2. setCoordinates e cds wd1 = Inr wd2 \<and>
            boundsArray (this wd2) = boundsArray (this wd1) \<and>
            coord (this wd2) = coord (this wd1) \<and>
            centerCoord (this wd2) = centerCoord (this wd1) \<and>
            minzoom (this wd2) = minzoom (this wd1) \<and>
            maxzoom (this wd2) = maxzoom (this wd1)) \<and>
         (\<forall>wb. src_map (this wb) = src_map (this wd) \<longrightarrow>
            (\<exists>wb'. setCoordinates e cds wb = Inr wb' \<and>
               boundsArray (this wb') = boundsArray (this wd1) \<and>
               coord (this wb') = coord (this wd1) \<and>
               centerCoord (this wb') = centerCoord (this wd1)))"
proof -
  from setCoordinates_Inr_D [OF assms] obtain cs m
    where cds: "cds = Coords cs" and m: "src_map (this wd) = Some m" and l: "4 \<le> length cs"
    by blast
  note first = setCoordinates_this(1) [OF m l assms [unfolded cds]]
  have same: "\<exists>wb'. setCoordinates e cds wb = Inr wb' \<and>
               boundsArray (this wb') = boundsArray (this wd1) \<and>
               coord (this wb') = coord (this wd1) \<and>
               centerCoord (this wb') = centerCoord (this wd1) \<and>
               minzoom (this wb') = minzoom (this wd1) \<and>
               maxzoom (this wb') = maxzoom (this wd1)"
    if "src_map (this wb) = src_map (this wd)" for wb
  proof -
    from that m have mb: "src_map (this wb) = Some m" by simp
    obtain wb' where r: "setCoordinates e (Coords cs) wb = Inr wb'"
      using setCoordinates_returns [OF mb l] by blast
    from setCoordinates_this(1) [OF mb l r] first r cds show ?thesis
      by (simp add: geometry_of_fields)
  qed
  have "src_map (this wd1) = src_map (this wd)"
    using first by (simp add: geometry_of_fields)
  from same [OF this] same show ?thesis by blast
qed

text \<open>The sample source, called twice with the corners of the class documentation.\<close>

theorem setCoordinates_same_geometry_witness:
  "\<exists>wd1 wd2. setCoordinates sample_env (Coords sample_corners) sample_attached = Inr wd1 \<and>
      setCoordinates sample_env (Coords sample_corners) wd1 = Inr wd2 \<and>
      boundsArray (this wd2) = boundsArray (this wd1) \<and>
      coord (this wd2) = coord (this wd1) \<and>
      coord (this wd1) = Some \<lparr>tc_z = 14, tc_x = 4709, tc_y = 4626, tc_w = 0\<rparr>"
proof -
  obtain wd1 where r: "setCoordinates sample_env (Coords sample_corners) sample_attached = Inr wd1"
    using setCoordinates_returns [OF sample_attached_map sample_corners_length] by blast
  have "coord (this wd1) = Some \<lparr>tc_z = 14, tc_x = 4709, tc_y = 4626, tc_w = 0\<rparr>"
    using setCoordinates_this(1) [OF sample_attached_map sample_corners_length r]
    by (simp add: geometry_of_fields sample_center new_TileCoord_def)
  with setCoordinates_same_geometry [OF r] r show ?thesis by blast
qed

subsection \<open>prepare without a tile or without an image\<close>

text \<open>
  Claim C8. When \<open>this.tiles\<close> is empty or \<open>this.image\<close> is not set, \<open>prepare\<close> returns
  and the world is as before: the log of the context (no texture, no buffer), the
  object and every tile.
\<close>

theorem prepare_skips:
  assumes "tiles (this wd) = [] \<or> src_image (this wd) = None"
  shows "prepare wd = Inr wd"
  using assms by (auto simp: prepare_def split: option.splits)

text \<open>
  The attached sample source has no tile and no image; the anchored one has claimed
  tile 10 but has no image.
\<close>

theorem prepare_skips_witness:
  "(tiles (this sample_attached) = [] \<or> src_image (this sample_attached) = None) \<and>
   prepare sample_attached = Inr sample_attached \<and>
   src_image (this sample_anchored) = None \<and>
   prepare (snd (loadTile sample_env 10 sample_anchored)) =
     Inr (snd (loadTile sample_env 10 sample_anchored))"
proof -
  have a: "tiles (this sample_attached) = []"
    by (simp add: sample_attached_def new_world_def sample_source_def constructor_def)
  have b: "src_image (this (snd (loadTile sample_env 10 sample_anchored))) = None"
    "src_image (this sample_anchored) = None"
    by (simp_all add: loadTile_def Let_def sample_anchored_def sample_attached_def new_world_def
        sample_source_def constructor_def)
  from prepare_skips [of sample_attached] prepare_skips [of "snd (loadTile sample_env 10 sample_anchored)"]
    a b
  show ?thesis by simp
qed


subsection \<open>The texture across calls of prepareImage and prepare\<close>

lemma prepareImage_textureCalls:
  "textureCalls (gl (prepareImage img r wd)) =
     textureCalls (gl wd) @ uploadCalls img r (length (gl (ensureBoundsBuffer wd))) (this wd)"
  by (simp add: prepareImage_gl textureCalls_ensureBoundsBuffer)

lemma prepareImage_texturesCreated:
  "texturesCreated (gl (prepareImage img r wd)) =
     texturesCreated (gl wd) + (if textureLoaded (this wd) then 0 else 1)"
  by (simp add: prepareImage_gl texturesCreated_ensureBoundsBuffer texturesCreated_uploadCalls)

lemma prepare_runs:
  assumes "tiles (this wd) \<noteq> []" and "src_image (this wd) = Some img"
    and "src_map (this wd) = Some m"
  shows "prepare wd = Inr (prepareImage img False wd)"
  using assms by (simp add: prepare_def)

lemma prepare_cases:
  assumes "prepare wd = Inr wd1"
  shows "wd1 = wd \<or> (\<exists>img. src_image (this wd) = Some img \<and> wd1 = prepareImage img False wd)"
  using assms by (auto simp: prepare_def split: option.splits if_splits)

lemma prepares_loaded:
  assumes "textureLoaded (this wd)" and "tiles (this wd) \<noteq> []"
    and "src_image (this wd) = Some img" and "src_map (this wd) = Some m"
  shows "\<exists>wd'. prepares n wd = Inr wd' \<and> texturesCreated (gl wd') = texturesCreated (gl wd) \<and>
           textureLoaded (this wd') \<and> texture (this wd') = texture (this wd)"
  using assms
proof (induction n arbitrary: wd)
  case 0
  then show ?case by simp
next
  case (Suc n)
  let ?w = "prepareImage img False wd"
  have p: "prepare wd = Inr ?w"
    using Suc.prems by (simp add: prepare_runs)
  have "textureLoaded (this ?w)" "tiles (this ?w) \<noteq> []" "src_image (this ?w) = Some img"
    "src_map (this ?w) = Some m"
    using Suc.prems by (simp_all add: prepareImage_fields)
  from Suc.IH [OF this] obtain wd' where "prepares n ?w = Inr wd'"
    and "texturesCreated (gl wd') = texturesCreated (gl ?w)"
    and "textureLoaded (this wd')" and "texture (this wd') = texture (this ?w)"
    by blast
  with p Suc.prems(1) show ?case
    by (simp add: prepareImage_texturesCreated prepareImage_texture)
qed

lemma prepares_static:
  assumes "prepares n wd = Inr wd'" and "textureLoaded (this wd)"
    and "src_image (this wd) = Some (HTMLImageElement k)"
  shows "textureCalls (gl wd') = textureCalls (gl wd)"
  using assms
proof (induction n arbitrary: wd)
  case 0
  then show ?case by simp
next
  case (Suc n)
  from Suc.prems(1) obtain wd1 where p: "prepare wd = Inr wd1" and r: "prepares n wd1 = Inr wd'"
    by (auto split: sum.splits)
  from prepare_cases [OF p] Suc.prems(2,3)
  have "textureLoaded (this wd1) \<and> src_image (this wd1) = Some (HTMLImageElement k) \<and>
      textureCalls (gl wd1) = textureCalls (gl wd)"
    by (auto simp: prepareImage_fields prepareImage_textureCalls uploadCalls_def)
  with Suc.IH [OF r] show ?case by simp
qed

text \<open>
  Claim C5. The calls \<open>_prepareImage\<close> makes on textures (\<open>textureCalls\<close> leaves out the
  calls on vertex buffers), for an image \<open>img\<close> and a flag \<open>r\<close> (resize):
  \<^item> when \<open>this.textureLoaded\<close> is not set (the first call): a new texture is created and
    bound, both wraps are CLAMP_TO_EDGE, both filters LINEAR, the image is uploaded in
    full with \<open>texImage2D\<close>, and \<open>this.textureLoaded\<close> is set;
  \<^item> when it is set (a later call): the texture is the same, and the calls are one
    \<open>texImage2D\<close> if \<open>r\<close> is set; else a bind and a \<open>texSubImage2D\<close> if the raster is a
    video, an image data buffer or a canvas; else none. So a full upload is made only
    with the flag, a partial one only for a streaming raster, and a static image is left
    alone when the flag is not set;
  \<^item> \<open>prepare()\<close>, which passes no flag, called \<open>n + 1\<close> times on a source with a tile, an
    image and a map and no texture yet creates exactly one texture, and every call
    returns;
  \<^item> through \<open>prepare()\<close> a static image (\<open>HTMLImageElement\<close>) that has been uploaded gets
    no call on textures at all, however often \<open>prepare()\<close> runs.
\<close>

theorem prepareImage_texture_lifecycle:
  "(\<not> textureLoaded (this wd) \<longrightarrow>
      (\<exists>t. texture (this (prepareImage img r wd)) = Some t \<and>
           textureLoaded (this (prepareImage img r wd)) \<and>
           textureCalls (gl (prepareImage img r wd)) =
             textureCalls (gl wd) @
               [CreateTexture t, BindTexture (Some t),
                TexParameteri TEXTURE_WRAP_S CLAMP_TO_EDGE,
                TexParameteri TEXTURE_WRAP_T CLAMP_TO_EDGE,
                TexParameteri TEXTURE_MIN_FILTER LINEAR,
                TexParameteri TEXTURE_MAG_FILTER LINEAR,
                TexImage2D img])) \<and>
   (textureLoaded (this wd) \<longrightarrow>
      texture (this (prepareImage img r wd)) = texture (this wd) \<and>
      textureLoaded (this (prepareImage img r wd)) \<and>
      textureCalls (gl (prepareImage img r wd)) =
        textureCalls (gl wd) @
          (if r then [TexImage2D img]
           else if isStreaming img then [BindTexture (texture (this wd)), TexSubImage2D img]
           else [])) \<and>
   (\<not> textureLoaded (this wd) \<and> tiles (this wd) \<noteq> [] \<and> src_image (this wd) = Some img \<and>
    src_map (this wd) = Some m \<longrightarrow>
      (\<exists>wd'. prepares (Suc n) wd = Inr wd' \<and>
         texturesCreated (gl wd') = texturesCreated (gl wd) + 1 \<and>
         textureLoaded (this wd') \<and>
         texture (this wd') = texture (this (prepareImage img False wd)))) \<and>
   (textureLoaded (this wd) \<and> src_image (this wd) = Some (HTMLImageElement k) \<longrightarrow>
      (\<forall>j wd'. prepares j wd = Inr wd' \<longrightarrow> textureCalls (gl wd') = textureCalls (gl wd)))"
proof (intro conjI impI)
  assume "\<not> textureLoaded (this wd)"
  then show "\<exists>t. texture (this (prepareImage img r wd)) = Some t \<and>
           textureLoaded (this (prepareImage img r wd)) \<and>
           textureCalls (gl (prepareImage img r wd)) =
             textureCalls (gl wd) @
               [CreateTexture t, BindTexture (Some t),
                TexParameteri TEXTURE_WRAP_S CLAMP_TO_EDGE,
                TexParameteri TEXTURE_WRAP_T CLAMP_TO_EDGE,
                TexParameteri TEXTURE_MIN_FILTER LINEAR,
                TexParameteri TEXTURE_MAG_FILTER LINEAR,
                TexImage2D img]"
    by (simp add: prepareImage_texture prepareImage_fields prepareImage_textureCalls
        uploadCalls_def createCalls_def)
next
  assume "textureLoaded (this wd)"
  then show "texture (this (prepareImage img r wd)) = texture (this wd)"
    and "textureLoaded (this (prepareImage img r wd))"
    and "textureCalls (gl (prepareImage img r wd)) =
        textureCalls (gl wd) @
          (if r then [TexImage2D img]
           else if isStreaming img then [BindTexture (texture (this wd)), TexSubImage2D img]
           else [])"
    by (simp_all add: prepareImage_texture prepareImage_fields prepareImage_textureCalls
        uploadCalls_def)
next
  assume a: "\<not> textureLoaded (this wd) \<and> tiles (this wd) \<noteq> [] \<and>
    src_image (this wd) = Some img \<and> src_map (this wd) = Some m"
  let ?w = "prepareImage img False wd"
  have p: "prepare wd = Inr ?w"
    using a by (simp add: prepare_runs)
  have "textureLoaded (this ?w)" "tiles (this ?w) \<noteq> []" "src_image (this ?w) = Some img"
    "src_map (this ?w) = Some m"
    using a by (simp_all add: prepareImage_fields)
  from prepares_loaded [OF this, of n] obtain wd' where "prepares n ?w = Inr wd'"
    and "texturesCreated (gl wd') = texturesCreated (gl ?w)"
    and "textureLoaded (this wd')" and "texture (this wd') = texture (this ?w)"
    by blast
  with p a show "\<exists>wd'. prepares (Suc n) wd = Inr wd' \<and>
         texturesCreated (gl wd') = texturesCreated (gl wd) + 1 \<and>
         textureLoaded (this wd') \<and>
         texture (this wd') = texture (this (prepareImage img False wd))"
    by (simp add: prepareImage_texturesCreated)
next
  assume "textureLoaded (this wd) \<and> src_image (this wd) = Some (HTMLImageElement k)"
  then show "\<forall>j wd'. prepares j wd = Inr wd' \<longrightarrow> textureCalls (gl wd') = textureCalls (gl wd)"
    using prepares_static by blast
qed

lemma sample_ready_fields:
  "\<not> textureLoaded (this sample_ready)"
  "tiles (this sample_ready) \<noteq> []"
  "src_image (this sample_ready) = Some (HTMLImageElement 0)"
  "src_map (this sample_ready) = Some sample_map"
  "boundsBuffer (this sample_ready) = None"
  "texture (this sample_ready) = None"
  "gl sample_ready = []"
  by (simp_all add: sample_ready_def sample_attached_def new_world_def sample_source_def
      constructor_def)

text \<open>
  The sample source with an image and a tile: the first \<open>_prepareImage\<close> creates texture
  1 (buffer 0 came first); after three calls of \<open>prepare()\<close> one texture has been created.
\<close>

theorem prepareImage_texture_lifecycle_witness:
  "\<not> textureLoaded (this sample_ready) \<and>
   tiles (this sample_ready) \<noteq> [] \<and>
   src_image (this sample_ready) = Some (HTMLImageElement 0) \<and>
   src_map (this sample_ready) = Some sample_map \<and>
   textureCalls (gl (prepareImage (HTMLImageElement 0) False sample_ready)) =
     [CreateTexture 1, BindTexture (Some 1),
      TexParameteri TEXTURE_WRAP_S CLAMP_TO_EDGE,
      TexParameteri TEXTURE_WRAP_T CLAMP_TO_EDGE,
      TexParameteri TEXTURE_MIN_FILTER LINEAR,
      TexParameteri TEXTURE_MAG_FILTER LINEAR,
      TexImage2D (HTMLImageElement 0)] \<and>
   (\<exists>wd'. prepares 3 sample_ready = Inr wd' \<and> texturesCreated (gl wd') = 1 \<and>
      texture (this wd') = Some 1)"
proof -
  note th = prepareImage_texture_lifecycle
    [of sample_ready "HTMLImageElement 0" False sample_map 2 0]
  have t: "texture (this (prepareImage (HTMLImageElement 0) False sample_ready)) = Some 1"
    by (simp add: prepareImage_texture ensureBoundsBuffer_fields sample_ready_fields)
  from th sample_ready_fields obtain t' where
    "texture (this (prepareImage (HTMLImageElement 0) False sample_ready)) = Some t'"
    and c: "textureCalls (gl (prepareImage (HTMLImageElement 0) False sample_ready)) =
      textureCalls (gl sample_ready) @
        [CreateTexture t', BindTexture (Some t'),
         TexParameteri TEXTURE_WRAP_S CLAMP_TO_EDGE,
         TexParameteri TEXTURE_WRAP_T CLAMP_TO_EDGE,
         TexParameteri TEXTURE_MIN_FILTER LINEAR,
         TexParameteri TEXTURE_MAG_FILTER LINEAR,
         TexImage2D (HTMLImageElement 0)]"
    by blast
  with t have "t' = 1" by simp
  with c have calls: "textureCalls (gl (prepareImage (HTMLImageElement 0) False sample_ready)) =
     [CreateTexture 1, BindTexture (Some 1),
      TexParameteri TEXTURE_WRAP_S CLAMP_TO_EDGE,
      TexParameteri TEXTURE_WRAP_T CLAMP_TO_EDGE,
      TexParameteri TEXTURE_MIN_FILTER LINEAR,
      TexParameteri TEXTURE_MAG_FILTER LINEAR,
      TexImage2D (HTMLImageElement 0)]"
    by (simp add: sample_ready_fields textureCalls_def)
  from th sample_ready_fields obtain wd' where "prepares (Suc 2) sample_ready = Inr wd'"
    and "texturesCreated (gl wd') = texturesCreated (gl sample_ready) + 1"
    and "texture (this wd') = texture (this (prepareImage (HTMLImageElement 0) False sample_ready))"
    by blast
  then have "\<exists>wd'. prepares 3 sample_ready = Inr wd' \<and> texturesCreated (gl wd') = 1 \<and>
      texture (this wd') = Some 1"
    using t by (simp add: sample_ready_fields texturesCreated_def numeral_3_eq_3)
  with calls sample_ready_fields show ?thesis by simp
qed

subsection \<open>loadTile\<close>

lemma loadTile_match:
  assumes "sameTile e (coord (this wd)) (tile_coord (heap wd t))"
  shows "loadTile e t wd =
     (None,
      wd\<lparr>this := (this wd)\<lparr>tiles := AList.update (tc_w (tile_coord (heap wd t))) t (tiles (this wd))\<rparr>,
         heap := (heap wd)(t := (heap wd t)\<lparr>buckets := []\<rparr>)\<rparr>)"
  using assms by (simp add: loadTile_def Let_def)

lemma loadTile_mismatch:
  assumes "\<not> sameTile e (coord (this wd)) (tile_coord (heap wd t))"
  shows "loadTile e t wd = (None, wd\<lparr>heap := (heap wd)(t := (heap wd t)\<lparr>state := ''errored''\<rparr>)\<rparr>)"
  using assms by (simp add: loadTile_def Let_def)

lemma map_of_update_same: "map_of (AList.update k v al) k = Some v"
  by (simp add: update_conv')

text \<open>
  Claim C7. \<open>loadTile\<close> calls its callback with \<open>null\<close> in both branches. The test is
  \<open>this.coord\<close> being set and printing (\<open>toString\<close>) like the coordinate of the tile
  (\<open>sameTile\<close>); it holds when the two coordinates are equal. When it holds, the tile is
  stored in \<open>this.tiles\<close> under its wrap index and its buckets are emptied, and nothing
  else changes. When it fails, the state of the tile becomes \<open>errored\<close> and nothing else
  changes.
\<close>

theorem loadTile_reports_success:
  "fst (loadTile e t wd) = None \<and>
   (coord (this wd) = Some (tile_coord (heap wd t)) \<longrightarrow>
      sameTile e (coord (this wd)) (tile_coord (heap wd t))) \<and>
   (sameTile e (coord (this wd)) (tile_coord (heap wd t)) \<longrightarrow>
      map_of (tiles (this (snd (loadTile e t wd)))) (tc_w (tile_coord (heap wd t))) = Some t \<and>
      buckets (heap (snd (loadTile e t wd)) t) = [] \<and>
      snd (loadTile e t wd) =
        wd\<lparr>this := (this wd)
               \<lparr>tiles := AList.update (tc_w (tile_coord (heap wd t))) t (tiles (this wd))\<rparr>,
           heap := (heap wd)(t := (heap wd t)\<lparr>buckets := []\<rparr>)\<rparr>) \<and>
   (\<not> sameTile e (coord (this wd)) (tile_coord (heap wd t)) \<longrightarrow>
      state (heap (snd (loadTile e t wd)) t) = ''errored'' \<and>
      snd (loadTile e t wd) = wd\<lparr>heap := (heap wd)(t := (heap wd t)\<lparr>state := ''errored''\<rparr>)\<rparr>)"
proof (intro conjI impI)
  show "fst (loadTile e t wd) = None"
    by (simp add: loadTile_def Let_def)
next
  assume "coord (this wd) = Some (tile_coord (heap wd t))"
  then show "sameTile e (coord (this wd)) (tile_coord (heap wd t))"
    by (simp add: sameTile_def)
next
  assume s: "sameTile e (coord (this wd)) (tile_coord (heap wd t))"
  show "map_of (tiles (this (snd (loadTile e t wd)))) (tc_w (tile_coord (heap wd t))) = Some t"
    and "buckets (heap (snd (loadTile e t wd)) t) = []"
    and "snd (loadTile e t wd) =
        wd\<lparr>this := (this wd)
               \<lparr>tiles := AList.update (tc_w (tile_coord (heap wd t))) t (tiles (this wd))\<rparr>,
           heap := (heap wd)(t := (heap wd t)\<lparr>buckets := []\<rparr>)\<rparr>"
    by (simp_all add: loadTile_match [OF s] map_of_update_same)
next
  assume s: "\<not> sameTile e (coord (this wd)) (tile_coord (heap wd t))"
  show "state (heap (snd (loadTile e t wd)) t) = ''errored''"
    and "snd (loadTile e t wd) = wd\<lparr>heap := (heap wd)(t := (heap wd t)\<lparr>state := ''errored''\<rparr>)\<rparr>"
    by (simp_all add: loadTile_mismatch [OF s])
qed

lemma sample_toString_same:
  "sample_toString (new_TileCoord 5 10 12) =
     sample_toString \<lparr>tc_z = 5, tc_x = 10, tc_y = 12, tc_w = 1\<rparr>"
  by (simp add: sample_toString_def new_TileCoord_def)

lemma sample_toString_other:
  "sample_toString (new_TileCoord 5 10 12) \<noteq>
     sample_toString \<lparr>tc_z = 5, tc_x = 10, tc_y = 13, tc_w = 0\<rparr>"
  by (simp add: sample_toString_def new_TileCoord_def decimal.simps)

lemma sample_anchored_fields:
  "coord (this sample_anchored) = Some (new_TileCoord 5 10 12)"
  "tiles (this sample_anchored) = []"
  "src_image (this sample_anchored) = None"
  "heap sample_anchored 10 =
     \<lparr>tile_coord = \<lparr>tc_z = 5, tc_x = 10, tc_y = 12, tc_w = 1\<rparr>,
       state = ''loading'', tile_texture = None, buckets = [(''overlay'', 7)]\<rparr>"
  "heap sample_anchored 20 =
     \<lparr>tile_coord = \<lparr>tc_z = 5, tc_x = 10, tc_y = 13, tc_w = 0\<rparr>,
       state = ''loading'', tile_texture = None, buckets = [(''overlay'', 8)]\<rparr>"
  by (simp_all add: sample_anchored_def sample_attached_def new_world_def sample_source_def
      constructor_def)

lemma sample_anchored_sameTile:
  "sameTile sample_env (coord (this sample_anchored)) (tile_coord (heap sample_anchored 10))"
  "\<not> sameTile sample_env (coord (this sample_anchored)) (tile_coord (heap sample_anchored 20))"
  using sample_toString_same sample_toString_other
  by (simp_all add: sameTile_def sample_anchored_fields sample_env_def)

text \<open>
  The scenario with the anchor 5/10/12: the request for 5/10/12 in world copy 1 is
  stored under 1 with its buckets emptied, the request for 5/10/13 is marked errored
  and keeps its buckets, the table stays empty; the callback gets \<open>null\<close> both times.
\<close>

theorem loadTile_reports_success_witness:
  "coord (this sample_anchored) = Some \<lparr>tc_z = 5, tc_x = 10, tc_y = 12, tc_w = 0\<rparr> \<and>
   tile_coord (heap sample_anchored 10) = \<lparr>tc_z = 5, tc_x = 10, tc_y = 12, tc_w = 1\<rparr> \<and>
   tile_coord (heap sample_anchored 20) = \<lparr>tc_z = 5, tc_x = 10, tc_y = 13, tc_w = 0\<rparr> \<and>
   fst (loadTile sample_env 10 sample_anchored) = None \<and>
   tiles (this (snd (loadTile sample_env 10 sample_anchored))) = [(1, 10)] \<and>
   buckets (heap sample_anchored 10) = [(''overlay'', 7)] \<and>
   buckets (heap (snd (loadTile sample_env 10 sample_anchored)) 10) = [] \<and>
   state (heap (snd (loadTile sample_env 10 sample_anchored)) 10) = ''loading'' \<and>
   fst (loadTile sample_env 20 sample_anchored) = None \<and>
   state (heap (snd (loadTile sample_env 20 sample_anchored)) 20) = ''errored'' \<and>
   tiles (this (snd (loadTile sample_env 20 sample_anchored))) = [] \<and>
   buckets (heap (snd (loadTile sample_env 20 sample_anchored)) 20) = [(''overlay'', 8)]"
proof -
  note one = loadTile_reports_success [of sample_env 10 sample_anchored]
  note two = loadTile_reports_success [of sample_env 20 sample_anchored]
  from one sample_anchored_sameTile(1)
  have s1: "snd (loadTile sample_env 10 sample_anchored) =
      sample_anchored\<lparr>this := (this sample_anchored)
               \<lparr>tiles := AList.update (tc_w (tile_coord (heap sample_anchored 10))) 10
                  (tiles (this sample_anchored))\<rparr>,
           heap := (heap sample_anchored)(10 := (heap sample_anchored 10)\<lparr>buckets := []\<rparr>)\<rparr>"
    and f1: "fst (loadTile sample_env 10 sample_anchored) = None"
    by blast+
  from two sample_anchored_sameTile(2)
  have s2: "snd (loadTile sample_env 20 sample_anchored) =
      sample_anchored\<lparr>heap := (heap sample_anchored)
        (20 := (heap sample_anchored 20)\<lparr>state := ''errored''\<rparr>)\<rparr>"
    and f2: "fst (loadTile sample_env 20 sample_anchored) = None"
    by blast+
  show ?thesis
    unfolding s1 s2 using f1 f2
    by (simp add: sample_anchored_fields new_TileCoord_def)
qed

subsection \<open>When a tile becomes loaded\<close>

lemma prepareImage_heap_apply:
  "heap (prepareImage img rs wd) r =
     (if r \<in> snd ` set (tiles (this wd)) \<and> state (heap wd r) \<noteq> ''loaded''
      then (heap wd r)\<lparr>state := ''loaded'',
             tile_texture := texture (this (prepareImage img rs wd))\<rparr>
      else heap wd r)"
  by (simp only: prepareImage_heap markTiles_apply)

text \<open>
  Claim C10. For every tile \<open>r\<close>: a \<open>loadTile\<close> whose test holds leaves the state of
  \<open>r\<close> as it is (also when \<open>r\<close> is the tile claimed); no \<open>loadTile\<close> writes \<open>r.texture\<close>
  or makes \<open>r\<close> loaded, and \<open>setCoordinates\<close> writes no tile. \<open>_prepareImage\<close> makes a
  tile of \<open>this.tiles\<close> that is not loaded loaded and gives it \<open>this.texture\<close>; a tile that
  is loaded, and a tile that is not in \<open>this.tiles\<close>, it leaves as it is.
\<close>

theorem tile_loaded_in_prepareImage:
  "(sameTile e (coord (this wd)) (tile_coord (heap wd t)) \<longrightarrow>
      state (heap (snd (loadTile e t wd)) r) = state (heap wd r)) \<and>
   tile_texture (heap (snd (loadTile e t wd)) r) = tile_texture (heap wd r) \<and>
   (state (heap (snd (loadTile e t wd)) r) = ''loaded'' \<longrightarrow> state (heap wd r) = ''loaded'') \<and>
   (setCoordinates e cds wd = Inr wd' \<longrightarrow> heap wd' = heap wd) \<and>
   (r \<in> snd ` set (tiles (this wd)) \<and> state (heap wd r) \<noteq> ''loaded'' \<longrightarrow>
      state (heap (prepareImage img rs wd) r) = ''loaded'' \<and>
      tile_texture (heap (prepareImage img rs wd) r) = texture (this (prepareImage img rs wd))) \<and>
   (state (heap wd r) = ''loaded'' \<longrightarrow>
      state (heap (prepareImage img rs wd) r) = ''loaded'' \<and>
      tile_texture (heap (prepareImage img rs wd) r) = tile_texture (heap wd r) \<and>
      heap (prepareImage img rs wd) r = heap wd r) \<and>
   (r \<notin> snd ` set (tiles (this wd)) \<longrightarrow> heap (prepareImage img rs wd) r = heap wd r)"
proof (intro conjI impI)
  assume s: "sameTile e (coord (this wd)) (tile_coord (heap wd t))"
  show "state (heap (snd (loadTile e t wd)) r) = state (heap wd r)"
    by (simp add: loadTile_match [OF s])
next
  show "tile_texture (heap (snd (loadTile e t wd)) r) = tile_texture (heap wd r)"
    by (simp add: loadTile_def Let_def)
next
  assume "state (heap (snd (loadTile e t wd)) r) = ''loaded''"
  then show "state (heap wd r) = ''loaded''"
    by (simp add: loadTile_def Let_def split: if_splits)
next
  assume r: "setCoordinates e cds wd = Inr wd'"
  from setCoordinates_Inr_D [OF r] obtain cs m
    where "cds = Coords cs" "src_map (this wd) = Some m" "4 \<le> length cs"
    by blast
  with r show "heap wd' = heap wd"
    using setCoordinates_this(2) by blast
next
  assume "r \<in> snd ` set (tiles (this wd)) \<and> state (heap wd r) \<noteq> ''loaded''"
  then show "state (heap (prepareImage img rs wd) r) = ''loaded''"
    and "tile_texture (heap (prepareImage img rs wd) r) = texture (this (prepareImage img rs wd))"
    by (simp_all add: prepareImage_heap_apply)
next
  assume "state (heap wd r) = ''loaded''"
  then show "state (heap (prepareImage img rs wd) r) = ''loaded''"
    and "tile_texture (heap (prepareImage img rs wd) r) = tile_texture (heap wd r)"
    and "heap (prepareImage img rs wd) r = heap wd r"
    by (simp_all add: prepareImage_heap_apply)
next
  assume "r \<notin> snd ` set (tiles (this wd))"
  then show "heap (prepareImage img rs wd) r = heap wd r"
    by (simp add: prepareImage_heap_apply)
qed

lemma sample_claimed_fields:
  "tiles (this (snd (loadTile sample_env 10 sample_anchored))) = [(1, 10)]"
  "state (heap (snd (loadTile sample_env 10 sample_anchored)) 10) = ''loading''"
  "tile_texture (heap (snd (loadTile sample_env 10 sample_anchored)) 10) = None"
  "textureLoaded (this (snd (loadTile sample_env 10 sample_anchored))) = False"
  "boundsBuffer (this (snd (loadTile sample_env 10 sample_anchored))) = None"
  "gl (snd (loadTile sample_env 10 sample_anchored)) = []"
  by (simp_all add: loadTile_match [OF sample_anchored_sameTile(1)] sample_anchored_fields,
      simp_all add: sample_anchored_def sample_attached_def new_world_def sample_source_def
        constructor_def)

text \<open>
  The scenario again: after the claim tile 10 is still \<open>loading\<close> and has no texture; the
  first \<open>_prepareImage\<close> makes it loaded with texture 1; the second leaves it so.
\<close>

theorem tile_loaded_in_prepareImage_witness:
  "sameTile sample_env (coord (this sample_anchored)) (tile_coord (heap sample_anchored 10)) \<and>
   state (heap sample_anchored 10) = ''loading'' \<and>
   state (heap (snd (loadTile sample_env 10 sample_anchored)) 10) = ''loading'' \<and>
   tile_texture (heap (snd (loadTile sample_env 10 sample_anchored)) 10) = None \<and>
   state (heap (prepareImage (HTMLImageElement 0) False
            (snd (loadTile sample_env 10 sample_anchored))) 10) = ''loaded'' \<and>
   tile_texture (heap (prepareImage (HTMLImageElement 0) False
            (snd (loadTile sample_env 10 sample_anchored))) 10) = Some 1 \<and>
   heap (prepareImage (HTMLImageElement 0) False
          (prepareImage (HTMLImageElement 0) False
            (snd (loadTile sample_env 10 sample_anchored)))) 10 =
     heap (prepareImage (HTMLImageElement 0) False
            (snd (loadTile sample_env 10 sample_anchored))) 10"
proof -
  let ?w1 = "snd (loadTile sample_env 10 sample_anchored)"
  let ?w2 = "prepareImage (HTMLImageElement 0) False ?w1"
  note claim = tile_loaded_in_prepareImage
    [of sample_env sample_anchored 10 10 Undefined sample_anchored "HTMLImageElement 0" False]
  note first = tile_loaded_in_prepareImage
    [of sample_env ?w1 10 10 Undefined ?w1 "HTMLImageElement 0" False]
  note second = tile_loaded_in_prepareImage
    [of sample_env ?w2 10 10 Undefined ?w2 "HTMLImageElement 0" False]
  have tex: "texture (this ?w2) = Some 1"
    by (simp add: prepareImage_texture ensureBoundsBuffer_fields sample_claimed_fields)
  have a: "state (heap ?w1 10) = ''loading''"
    using claim sample_anchored_sameTile(1) by (simp add: sample_anchored_fields)
  have b: "state (heap ?w2 10) = ''loaded'' \<and> tile_texture (heap ?w2 10) = Some 1"
    using first a tex by (simp add: sample_claimed_fields)
  have c: "heap (prepareImage (HTMLImageElement 0) False ?w2) 10 = heap ?w2 10"
    using second b by blast
  from a b c sample_anchored_sameTile(1) show ?thesis
    by (simp add: sample_anchored_fields sample_claimed_fields)
qed

subsection \<open>serialize and the constructor\<close>

lemma sample_serialize:
  "serialize sample_source =
     [(''type'', Str ''image''),
      (''urls'', Str ''https://www.mapbox.com/images/foo.png''),
      (''coordinates'', Coords sample_corners)]"
  by (simp add: serialize_def sample_source_def constructor_def sample_options_def get_prop_def)

text \<open>
  Claim C1, on the source of the class documentation. \<open>serialize\<close> writes the url under
  the key \<open>urls\<close>, so its output has no property \<open>url\<close>, the property \<open>load\<close> reads
  (line 94). The source itself, added to a map, requests its url; a source constructed
  from the output of \<open>serialize\<close> and added to the same map has the same corners, but
  its url is undefined and so is the url it requests.
\<close>

theorem serialize_writes_urls:
  "serialize sample_source =
     [(''type'', Str ''image''),
      (''urls'', Str ''https://www.mapbox.com/images/foo.png''),
      (''coordinates'', Coords sample_corners)] \<and>
   get_prop (serialize sample_source) ''url'' = Undefined \<and>
   (\<exists>wd. onAdd sample_map (new_world sample_source) = Inr wd \<and>
      url (this wd) = Str ''https://www.mapbox.com/images/foo.png'' \<and>
      requests wd = [Str ''https://www.mapbox.com/images/foo.png'']) \<and>
   (\<exists>wd. onAdd sample_map
           (new_world (constructor ''some id'' (serialize sample_source) 0 0)) = Inr wd \<and>
      coordinates (this wd) = Coords sample_corners \<and>
      url (this wd) = Undefined \<and>
      requests wd = [Undefined])"
proof (intro conjI)
  show "serialize sample_source =
     [(''type'', Str ''image''),
      (''urls'', Str ''https://www.mapbox.com/images/foo.png''),
      (''coordinates'', Coords sample_corners)]"
    by (rule sample_serialize)
  show "get_prop (serialize sample_source) ''url'' = Undefined"
    by (simp add: sample_serialize get_prop_def)
  show "\<exists>wd. onAdd sample_map (new_world sample_source) = Inr wd \<and>
      url (this wd) = Str ''https://www.mapbox.com/images/foo.png'' \<and>
      requests wd = [Str ''https://www.mapbox.com/images/foo.png'']"
    by (simp add: onAdd_def load_def new_world_def sample_source_def constructor_def
        sample_options_def get_prop_def fire_def Let_def)
  show "\<exists>wd. onAdd sample_map
           (new_world (constructor ''some id'' (serialize sample_source) 0 0)) = Inr wd \<and>
      coordinates (this wd) = Coords sample_corners \<and>
      url (this wd) = Undefined \<and>
      requests wd = [Undefined]"
    unfolding sample_serialize
    by (simp add: onAdd_def load_def new_world_def constructor_def get_prop_def fire_def Let_def)
qed

end
